theory Spec2Isabelle
  imports Complex_Main
begin

section \<open>Tensors, errors and the basic tensor operations\<close>

text \<open>
  The notebooks compute on PyTorch tensors. A two-dimensional tensor is modelled by its
  number of columns and the list of its rows; the number of rows is the length of that
  list, so the shapes \<open>[0, w]\<close> and \<open>[n, 0]\<close> are both representable. Entries are exact
  reals: rounding of 32-bit floats is not part of the model. Every exception the library
  raises is a value \<open>Inl e\<close>: \<open>ShapeError\<close> for a size mismatch, \<open>IndexError\<close>
  for an index out of range, \<open>AttributeError\<close> for a method call on \<open>None\<close>,
  \<open>RuntimeError\<close> for the remaining library errors.
\<close>

datatype error = ShapeError | IndexError | AttributeError | RuntimeError

record 'a tensor =
  cols :: nat
  vals :: "'a list list"

definition nrows :: "'a tensor \<Rightarrow> nat" where
  "nrows t = length (vals t)"

definition wf_tensor :: "'a tensor \<Rightarrow> bool" where
  "wf_tensor t = list_all (\<lambda>r. length r = cols t) (vals t)"

definition entry :: "'a tensor \<Rightarrow> nat \<Rightarrow> nat \<Rightarrow> 'a" where
  "entry t i j = vals t ! i ! j"

definition bindE :: "error + 'a \<Rightarrow> ('a \<Rightarrow> error + 'b) \<Rightarrow> error + 'b" where
  "bindE m f = (case m of Inl e \<Rightarrow> Inl e | Inr x \<Rightarrow> f x)"

text \<open>Broadcasting of two sizes along one dimension: equal, or one of them is 1.\<close>

definition bdim :: "nat \<Rightarrow> nat \<Rightarrow> nat option" where
  "bdim a b = (if a = b then Some a else if a = 1 then Some b
               else if b = 1 then Some a else None)"

definition expand :: "nat \<Rightarrow> 'a list \<Rightarrow> 'a list" where
  "expand n xs = (if length xs = n then xs else replicate n (hd xs))"

text \<open>\<open>a + b\<close> on two-dimensional tensors, with broadcasting.\<close>

definition tensor_add :: "real tensor \<Rightarrow> real tensor \<Rightarrow> error + real tensor" where
  "tensor_add a b =
     (case (bdim (nrows a) (nrows b), bdim (cols a) (cols b)) of
        (Some r, Some c) \<Rightarrow>
          Inr \<lparr>cols = c,
               vals = map2 (\<lambda>x y. map2 (+) (expand c x) (expand c y))
                        (expand r (vals a)) (expand r (vals b))\<rparr>
      | _ \<Rightarrow> Inl ShapeError)"

section \<open>Position encoding\<close>

text \<open>
  \<open>PositionEncoding.__init__\<close>: \<open>embedding_index = arange(0, d_model, 2)\<close> has
  \<open>(d_model + 1) div 2\<close> entries, \<open>div_term = 10000 ** (embedding_index / d_model)\<close>;
  the sines go to the columns \<open>0::2\<close>, the cosines to the columns \<open>1::2\<close>. The second
  assignment has \<open>d_model div 2\<close> target columns, so it raises unless the sizes agree or
  the source has one column.
\<close>

definition div_term :: "nat \<Rightarrow> nat \<Rightarrow> real" where
  "div_term d_model i = 10000 powr (real (2 * i) / real d_model)"

definition pe_row :: "nat \<Rightarrow> nat \<Rightarrow> real list" where
  "pe_row d_model pos =
     map (\<lambda>c. if even c then sin (real pos / div_term d_model (c div 2))
              else cos (real pos / div_term d_model (c div 2))) [0..<d_model]"

definition PositionEncoding_init :: "nat \<Rightarrow> nat \<Rightarrow> error + real tensor" where
  "PositionEncoding_init d_model max_len =
     (if bdim ((d_model + 1) div 2) (d_model div 2) = Some (d_model div 2)
      then Inr \<lparr>cols = d_model, vals = map (pe_row d_model) [0..<max_len]\<rparr>
      else Inl ShapeError)"

text \<open>
  \<open>PositionEncoding.forward\<close>:
  \<open>word_embeddings + self.pe[:word_embeddings.size(0), :]\<close>.
\<close>

definition PositionEncoding_forward :: "real tensor \<Rightarrow> real tensor \<Rightarrow> error + real tensor" where
  "PositionEncoding_forward pe word_embeddings =
     tensor_add word_embeddings (pe\<lparr>vals := take (nrows word_embeddings) (vals pe)\<rparr>)"


section \<open>Embedding and linear layers\<close>

text \<open>
  \<open>nn.Embedding\<close>: the weight has one row per token; an index outside
  \<open>[0, num_embeddings)\<close> raises.
\<close>

definition embedding :: "real tensor \<Rightarrow> int list \<Rightarrow> error + real tensor" where
  "embedding W token_ids =
     (if list_all (\<lambda>t. 0 \<le> t \<and> t < int (nrows W)) token_ids
      then Inr \<lparr>cols = cols W, vals = map (\<lambda>t. vals W ! nat t) token_ids\<rparr>
      else Inl IndexError)"

definition dot :: "real list \<Rightarrow> real list \<Rightarrow> real" where
  "dot x y = sum_list (map2 (*) x y)"

text \<open>
  \<open>nn.Linear(in_features, out_features, bias=False)\<close>: the weight has shape
  \<open>[out_features, in_features]\<close>, the input \<open>[n, in_features]\<close>.
\<close>

definition linear_nobias :: "real tensor \<Rightarrow> real tensor \<Rightarrow> error + real tensor" where
  "linear_nobias W x =
     (if cols x = cols W
      then Inr \<lparr>cols = nrows W, vals = map (\<lambda>r. map (dot r) (vals W)) (vals x)\<rparr>
      else Inl ShapeError)"

record linear =
  weight :: "real tensor"
  bias :: "real list"

definition linear_row :: "linear \<Rightarrow> real list \<Rightarrow> real list" where
  "linear_row l r = map (\<lambda>(w, b). dot r w + b) (zip (vals (weight l)) (bias l))"

definition linear_forward :: "linear \<Rightarrow> real tensor \<Rightarrow> error + real tensor" where
  "linear_forward l x =
     (if cols x = cols (weight l)
      then Inr \<lparr>cols = nrows (weight l), vals = map (linear_row l) (vals x)\<rparr>
      else Inl ShapeError)"

text \<open>The same layer on a one-dimensional input.\<close>

definition linear_forward1 :: "linear \<Rightarrow> real list \<Rightarrow> error + real list" where
  "linear_forward1 l x =
     (if length x = cols (weight l) then Inr (linear_row l x) else Inl ShapeError)"

definition wf_linear :: "nat \<Rightarrow> nat \<Rightarrow> linear \<Rightarrow> bool" where
  "wf_linear in_features out_features l =
     (wf_tensor (weight l) \<and> cols (weight l) = in_features \<and>
      nrows (weight l) = out_features \<and> length (bias l) = out_features)"

section \<open>Attention\<close>

definition transpose_t :: "'a tensor \<Rightarrow> 'a tensor" where
  "transpose_t t = \<lparr>cols = nrows t, vals = map (\<lambda>j. map (\<lambda>r. r ! j) (vals t)) [0..<cols t]\<rparr>"

definition matmul :: "real tensor \<Rightarrow> real tensor \<Rightarrow> error + real tensor" where
  "matmul a b =
     (if cols a = nrows b
      then Inr \<lparr>cols = cols b,
               vals = map (\<lambda>r. map (\<lambda>j. dot r (map (\<lambda>br. br ! j) (vals b))) [0..<cols b])
                        (vals a)\<rparr>
      else Inl ShapeError)"

definition tensor_div :: "real tensor \<Rightarrow> real \<Rightarrow> real tensor" where
  "tensor_div t c = t\<lparr>vals := map (map (\<lambda>x. x / c)) (vals t)\<rparr>"

text \<open>
  \<open>masked_fill\<close>: the mask is broadcast to the shape of the scores (never the other way
  round); where it is \<open>True\<close> the score is replaced by the value.
\<close>

definition masked_fill :: "real tensor \<Rightarrow> bool tensor \<Rightarrow> real \<Rightarrow> error + real tensor" where
  "masked_fill x m v =
     (if (nrows m = nrows x \<or> nrows m = 1) \<and> (cols m = cols x \<or> cols m = 1)
      then Inr (x\<lparr>vals := map2 (\<lambda>xr mr. map2 (\<lambda>a b. if b then v else a) xr (expand (cols x) mr))
                             (vals x) (expand (nrows x) (vals m))\<rparr>)
      else Inl ShapeError)"

definition softmax :: "real list \<Rightarrow> real list" where
  "softmax xs = map (\<lambda>x. exp x / sum_list (map exp xs)) xs"

definition softmax_rows :: "real tensor \<Rightarrow> real tensor" where
  "softmax_rows t = t\<lparr>vals := map softmax (vals t)\<rparr>"

record attention =
  W_q :: "real tensor"
  W_k :: "real tensor"
  W_v :: "real tensor"

definition wf_attention :: "nat \<Rightarrow> attention \<Rightarrow> bool" where
  "wf_attention d_model a =
     (wf_tensor (W_q a) \<and> cols (W_q a) = d_model \<and> nrows (W_q a) = d_model \<and>
      wf_tensor (W_k a) \<and> cols (W_k a) = d_model \<and> nrows (W_k a) = d_model \<and>
      wf_tensor (W_v a) \<and> cols (W_v a) = d_model \<and> nrows (W_v a) = d_model)"

text \<open>
  The first part of \<open>Attention.forward\<close>, up to \<open>scaled_sims\<close>: the three projections,
  the similarities and their scaling by \<open>k.size(col_dim) ** 0.5\<close>. The projected values
  are returned with the scores, since they are computed first.
\<close>

definition scaled_sims :: "attention \<Rightarrow> real tensor \<Rightarrow> real tensor \<Rightarrow> real tensor \<Rightarrow>
    error + (real tensor \<times> real tensor)" where
  "scaled_sims a encodings_for_q encodings_for_k encodings_for_v =
     bindE (linear_nobias (W_q a) encodings_for_q) (\<lambda>q.
     bindE (linear_nobias (W_k a) encodings_for_k) (\<lambda>k.
     bindE (linear_nobias (W_v a) encodings_for_v) (\<lambda>v.
     bindE (matmul q (transpose_t k)) (\<lambda>sims.
     Inr (tensor_div sims (sqrt (real (cols k))), v)))))"

text \<open>
  The encoder-only and encoder-decoder notebooks: the mask is touched only when it is not
  \<open>None\<close>. \<open>attention_percents\<close> is the local variable of that name.
\<close>

definition attention_percents :: "attention \<Rightarrow> real tensor \<Rightarrow> real tensor \<Rightarrow> real tensor \<Rightarrow>
    bool tensor option \<Rightarrow> error + (real tensor \<times> real tensor)" where
  "attention_percents a encodings_for_q encodings_for_k encodings_for_v mask_arg =
     bindE (scaled_sims a encodings_for_q encodings_for_k encodings_for_v) (\<lambda>(s, v).
     bindE (case mask_arg of None \<Rightarrow> Inr s | Some m \<Rightarrow> masked_fill s m (- 1000000000)) (\<lambda>s'.
     Inr (softmax_rows s', v)))"

definition Attention_forward :: "attention \<Rightarrow> real tensor \<Rightarrow> real tensor \<Rightarrow> real tensor \<Rightarrow>
    bool tensor option \<Rightarrow> error + real tensor" where
  "Attention_forward a encodings_for_q encodings_for_k encodings_for_v mask_arg =
     bindE (attention_percents a encodings_for_q encodings_for_k encodings_for_v mask_arg)
       (\<lambda>(p, v). matmul p v)"

text \<open>
  The decoder-only notebook: \<open>mask = mask.to(device)\<close> runs before the test
  \<open>mask is not None\<close>.
\<close>

definition attention_percents_dec :: "attention \<Rightarrow> real tensor \<Rightarrow> real tensor \<Rightarrow> real tensor \<Rightarrow>
    bool tensor option \<Rightarrow> error + (real tensor \<times> real tensor)" where
  "attention_percents_dec a encodings_for_q encodings_for_k encodings_for_v mask_arg =
     bindE (scaled_sims a encodings_for_q encodings_for_k encodings_for_v) (\<lambda>(s, v).
     bindE (case mask_arg of None \<Rightarrow> Inl AttributeError | Some m \<Rightarrow> Inr m) (\<lambda>m.
     bindE (masked_fill s m (- 1000000000)) (\<lambda>s'.
     Inr (softmax_rows s', v))))"

definition Attention_forward_dec :: "attention \<Rightarrow> real tensor \<Rightarrow> real tensor \<Rightarrow> real tensor \<Rightarrow>
    bool tensor option \<Rightarrow> error + real tensor" where
  "Attention_forward_dec a encodings_for_q encodings_for_k encodings_for_v mask_arg =
     bindE (attention_percents_dec a encodings_for_q encodings_for_k encodings_for_v mask_arg)
       (\<lambda>(p, v). matmul p v)"

text \<open>\<open>torch.tril(torch.ones(n, n)) == 0\<close>\<close>

definition tril_ones :: "nat \<Rightarrow> real tensor" where
  "tril_ones n =
     \<lparr>cols = n, vals = map (\<lambda>i. map (\<lambda>j. if j \<le> i then 1 else 0) [0..<n]) [0..<n]\<rparr>"

definition causal_mask :: "nat \<Rightarrow> bool tensor" where
  "causal_mask n = \<lparr>cols = n, vals = map (map (\<lambda>x. x = 0)) (vals (tril_ones n))\<rparr>"


section \<open>The encoder-only classifier\<close>

text \<open>\<open>torch.cat(ts, dim=1)\<close>: an empty list raises, and so do different row counts.\<close>

definition cat1 :: "real tensor list \<Rightarrow> error + real tensor" where
  "cat1 ts =
     (case ts of
        [] \<Rightarrow> Inl RuntimeError
      | t # rest \<Rightarrow>
          if list_all (\<lambda>u. nrows u = nrows t) rest
          then Inr \<lparr>cols = sum_list (map cols ts),
                   vals = map (\<lambda>i. concat (map (\<lambda>u. vals u ! i) ts)) [0..<nrows t]\<rparr>
          else Inl ShapeError)"

text \<open>
  \<open>MultiHeadAttention\<close>: \<open>attention_heads\<close> holds \<open>head\<close> attention layers, called in
  order; the loop stops at the first one that raises.
\<close>

record multi_head_attention =
  attention_heads :: "attention list"
  mha_fc :: linear

fun heads_forward :: "attention list \<Rightarrow> real tensor \<Rightarrow> real tensor \<Rightarrow> real tensor \<Rightarrow>
    bool tensor option \<Rightarrow> error + real tensor list" where
  "heads_forward [] q k v m = Inr []"
| "heads_forward (a # as) q k v m =
     (case Attention_forward a q k v m of
        Inl e \<Rightarrow> Inl e
      | Inr x \<Rightarrow> (case heads_forward as q k v m of Inl e \<Rightarrow> Inl e | Inr xs \<Rightarrow> Inr (x # xs)))"

definition MultiHeadAttention_forward :: "multi_head_attention \<Rightarrow> real tensor \<Rightarrow> real tensor \<Rightarrow>
    real tensor \<Rightarrow> bool tensor option \<Rightarrow> error + real tensor" where
  "MultiHeadAttention_forward mh encodings_for_q encodings_for_k encodings_for_v mask_arg =
     bindE (heads_forward (attention_heads mh) encodings_for_q encodings_for_k encodings_for_v
              mask_arg) (\<lambda>agg_attention_values.
     bindE (cat1 agg_attention_values) (\<lambda>agg.
     linear_forward (mha_fc mh) agg))"

record encoder_only_transformer =
  eo_we :: "real tensor"
  eo_pe :: "real tensor"
  eo_multi_head_attention :: multi_head_attention
  eo_cls :: linear

text \<open>
  \<open>EncoderOnlyTransformer.forward\<close> up to the residual connection, and the whole of it:
  the residual values are flattened and given to the classification layer.
\<close>

definition EncoderOnly_residual :: "encoder_only_transformer \<Rightarrow> int list \<Rightarrow> error + real tensor" where
  "EncoderOnly_residual M token_ids =
     bindE (embedding (eo_we M) token_ids) (\<lambda>word_embeddings.
     bindE (PositionEncoding_forward (eo_pe M) word_embeddings) (\<lambda>position_encoded.
     bindE (MultiHeadAttention_forward (eo_multi_head_attention M)
              position_encoded position_encoded position_encoded None) (\<lambda>self_attention_values.
     tensor_add position_encoded self_attention_values)))"

definition EncoderOnlyTransformer_forward :: "encoder_only_transformer \<Rightarrow> int list \<Rightarrow>
    error + real list" where
  "EncoderOnlyTransformer_forward M token_ids =
     bindE (EncoderOnly_residual M token_ids) (\<lambda>residual_connection_values.
     linear_forward1 (eo_cls M) (concat (vals residual_connection_values)))"

text \<open>
  What \<open>EncoderOnlyTransformer.__init__(num_tokens, d_model, head, max_len)\<close> builds:
  the shapes of the weights, and the table of the position encoding.
\<close>

definition wf_encoder_only :: "nat \<Rightarrow> nat \<Rightarrow> nat \<Rightarrow> nat \<Rightarrow> encoder_only_transformer \<Rightarrow> bool" where
  "wf_encoder_only num_tokens d_model head max_len M =
     (wf_tensor (eo_we M) \<and> nrows (eo_we M) = num_tokens \<and> cols (eo_we M) = d_model \<and>
      PositionEncoding_init d_model max_len = Inr (eo_pe M) \<and>
      length (attention_heads (eo_multi_head_attention M)) = head \<and>
      list_all (wf_attention d_model) (attention_heads (eo_multi_head_attention M)) \<and>
      wf_linear (head * d_model) d_model (mha_fc (eo_multi_head_attention M)) \<and>
      wf_linear (max_len * d_model) 2 (eo_cls M))"

section \<open>The encoder-decoder translator\<close>

record encoder =
  enc_we :: "real tensor"
  enc_pe :: "real tensor"
  enc_attention :: attention

definition Encoder_forward :: "encoder \<Rightarrow> int list \<Rightarrow> error + real tensor" where
  "Encoder_forward E token_ids =
     bindE (embedding (enc_we E) token_ids) (\<lambda>word_embeddings.
     bindE (PositionEncoding_forward (enc_pe E) word_embeddings) (\<lambda>position_encoded.
     bindE (Attention_forward (enc_attention E)
              position_encoded position_encoded position_encoded None) (\<lambda>self_attention_values.
     tensor_add position_encoded self_attention_values)))"

record decoder =
  dec_we :: "real tensor"
  dec_pe :: "real tensor"
  dec_self_attention :: attention
  dec_encoder_decoder_attention :: attention

definition Decoder_forward :: "decoder \<Rightarrow> int list \<Rightarrow> real tensor \<Rightarrow> real tensor \<Rightarrow>
    error + real tensor" where
  "Decoder_forward D token_ids embeddings_for_k embeddings_for_v =
     bindE (embedding (dec_we D) token_ids) (\<lambda>word_embeddings.
     bindE (PositionEncoding_forward (dec_pe D) word_embeddings) (\<lambda>position_encoded.
     bindE (Attention_forward (dec_self_attention D)
              position_encoded position_encoded position_encoded
              (Some (causal_mask (length token_ids)))) (\<lambda>self_attention_values.
     bindE (tensor_add position_encoded self_attention_values) (\<lambda>residual_connection_values.
     bindE (Attention_forward (dec_encoder_decoder_attention D)
              position_encoded embeddings_for_k embeddings_for_v None)
              (\<lambda>encoder_decoder_attention_values.
     tensor_add encoder_decoder_attention_values residual_connection_values)))))"

record transformer =
  tr_encoder :: encoder
  tr_decoder :: decoder
  tr_fc :: linear
  tr_max_len :: nat

definition SOS :: int where "SOS = 0"

definition EOS :: int where "EOS = 5"

text \<open>\<open>torch.where(token_ids == v)[0]\<close> and \<open>.item()\<close>, which wants exactly one element.\<close>

definition where_eq :: "int list \<Rightarrow> int \<Rightarrow> nat list" where
  "where_eq token_ids v = filter (\<lambda>i. token_ids ! i = v) [0..<length token_ids]"

definition item :: "'a list \<Rightarrow> error + 'a" where
  "item xs = (case xs of [x] \<Rightarrow> Inr x | _ \<Rightarrow> Inl RuntimeError)"

definition Transformer_forward :: "transformer \<Rightarrow> int list \<Rightarrow> error + real tensor" where
  "Transformer_forward T token_ids =
     bindE (item (where_eq token_ids SOS)) (\<lambda>end_idx.
     bindE (Encoder_forward (tr_encoder T) (take end_idx token_ids)) (\<lambda>contextualised_embeddings.
     bindE (Decoder_forward (tr_decoder T) (drop end_idx token_ids)
              contextualised_embeddings contextualised_embeddings) (\<lambda>residual_connection_values.
     linear_forward (tr_fc T) residual_connection_values)))"

text \<open>
  \<open>torch.argmax\<close> of the flattened tensor: the index of the first maximal value; it
  raises on an empty tensor.
\<close>

fun argmax_from :: "real list \<Rightarrow> nat \<Rightarrow> nat \<Rightarrow> real \<Rightarrow> nat" where
  "argmax_from [] i best m = best"
| "argmax_from (x # xs) i best m =
     (if m < x then argmax_from xs (Suc i) i x else argmax_from xs (Suc i) best m)"

definition argmax :: "real list \<Rightarrow> error + int" where
  "argmax xs = (case xs of [] \<Rightarrow> Inl IndexError | x # r \<Rightarrow> Inr (int (argmax_from r 1 0 x)))"

text \<open>
  \<open>Transformer.generate\<close>. The loop \<open>for i in range(self.max_len - 1)\<close> first appends
  the prediction to \<open>target_token_ids\<close>, leaves when it is \<open><EOS>\<close>, and otherwise
  decodes again and predicts from the last row. The result is \<open>target_token_ids\<close>, the
  sequence the method prints.
\<close>

fun generate_loop :: "transformer \<Rightarrow> real tensor \<Rightarrow> nat \<Rightarrow> int list \<Rightarrow> int \<Rightarrow> error + int list" where
  "generate_loop T ctx 0 target_token_ids prediction_id = Inr target_token_ids"
| "generate_loop T ctx (Suc n) target_token_ids prediction_id =
     (if prediction_id = EOS then Inr (target_token_ids @ [prediction_id])
      else
        (case Decoder_forward (tr_decoder T) (target_token_ids @ [prediction_id]) ctx ctx of
           Inl e \<Rightarrow> Inl e
         | Inr r \<Rightarrow>
            (case linear_forward (tr_fc T) (r\<lparr>vals := drop (nrows r - 1) (vals r)\<rparr>) of
               Inl e \<Rightarrow> Inl e
             | Inr fc_layer_out \<Rightarrow>
                (case argmax (concat (vals fc_layer_out)) of
                   Inl e \<Rightarrow> Inl e
                 | Inr p \<Rightarrow> generate_loop T ctx n (target_token_ids @ [prediction_id]) p))))"

definition generate :: "transformer \<Rightarrow> int list \<Rightarrow> error + int list" where
  "generate T src_token_ids =
     bindE (Encoder_forward (tr_encoder T) src_token_ids) (\<lambda>contextualised_embeddings.
     bindE (Decoder_forward (tr_decoder T) [SOS]
              contextualised_embeddings contextualised_embeddings) (\<lambda>residual_connection_values.
     bindE (linear_forward (tr_fc T) residual_connection_values) (\<lambda>fc_layer_out.
     bindE (argmax (concat (vals fc_layer_out))) (\<lambda>prediction_id.
     generate_loop T contextualised_embeddings (tr_max_len T - 1) [SOS] prediction_id))))"

section \<open>The decoder-only generator\<close>

record decoder_only_transformer =
  do_we :: "real tensor"
  do_pe :: "real tensor"
  do_attention :: attention
  do_fc :: linear

definition DecoderOnlyTransformer_forward :: "decoder_only_transformer \<Rightarrow> int list \<Rightarrow>
    error + real tensor" where
  "DecoderOnlyTransformer_forward M token_ids =
     bindE (embedding (do_we M) token_ids) (\<lambda>word_embeddings.
     bindE (PositionEncoding_forward (do_pe M) word_embeddings) (\<lambda>position_encoded.
     bindE (Attention_forward_dec (do_attention M)
              position_encoded position_encoded position_encoded
              (Some (causal_mask (length token_ids)))) (\<lambda>self_attention_values.
     bindE (tensor_add position_encoded self_attention_values) (\<lambda>residual_connection_values.
     linear_forward (do_fc M) residual_connection_values))))"

text \<open>
  \<open>torch.argmax(predictions[-1,:])\<close>: indexing the last row of a tensor without rows
  raises.
\<close>

definition predict_last :: "decoder_only_transformer \<Rightarrow> int list \<Rightarrow> error + int" where
  "predict_last M model_input =
     bindE (DecoderOnlyTransformer_forward M model_input) (\<lambda>predictions.
     if vals predictions = [] then Inl IndexError else argmax (last (vals predictions)))"

definition EOS_do :: int where "EOS_do = 4"

text \<open>
  The two generation cells of the decoder-only notebook. Both run
  \<open>for i in range(input_length, max_len)\<close> on the state \<open>model_input\<close>, \<open>predicted_id\<close>,
  \<open>predicted_ids\<close>; the cell before training extends \<open>predicted_ids\<close> with
  \<open>torch.cat((predicted_id, predicted_ids))\<close>, the cell after training with
  \<open>torch.cat((predicted_ids, predicted_id))\<close>. The state after the loop is returned;
  its last component is the sequence the cell prints.
\<close>

fun gen_loop_pre :: "decoder_only_transformer \<Rightarrow> nat \<Rightarrow> int list \<Rightarrow> int \<Rightarrow> int list \<Rightarrow>
    error + (int list \<times> int \<times> int list)" where
  "gen_loop_pre M 0 model_input predicted_id predicted_ids =
     Inr (model_input, predicted_id, predicted_ids)"
| "gen_loop_pre M (Suc n) model_input predicted_id predicted_ids =
     (if predicted_id = EOS_do then Inr (model_input, predicted_id, predicted_ids)
      else
        (case predict_last M (model_input @ [predicted_id]) of
           Inl e \<Rightarrow> Inl e
         | Inr p \<Rightarrow> gen_loop_pre M n (model_input @ [predicted_id]) p (p # predicted_ids)))"

fun gen_loop_post :: "decoder_only_transformer \<Rightarrow> nat \<Rightarrow> int list \<Rightarrow> int \<Rightarrow> int list \<Rightarrow>
    error + (int list \<times> int \<times> int list)" where
  "gen_loop_post M 0 model_input predicted_id predicted_ids =
     Inr (model_input, predicted_id, predicted_ids)"
| "gen_loop_post M (Suc n) model_input predicted_id predicted_ids =
     (if predicted_id = EOS_do then Inr (model_input, predicted_id, predicted_ids)
      else
        (case predict_last M (model_input @ [predicted_id]) of
           Inl e \<Rightarrow> Inl e
         | Inr p \<Rightarrow> gen_loop_post M n (model_input @ [predicted_id]) p (predicted_ids @ [p])))"

definition generate_pre :: "decoder_only_transformer \<Rightarrow> nat \<Rightarrow> int list \<Rightarrow>
    error + (int list \<times> int \<times> int list)" where
  "generate_pre M max_len model_input =
     bindE (predict_last M model_input) (\<lambda>predicted_id.
     gen_loop_pre M (max_len - length model_input) model_input predicted_id [predicted_id])"

definition generate_post :: "decoder_only_transformer \<Rightarrow> nat \<Rightarrow> int list \<Rightarrow>
    error + (int list \<times> int \<times> int list)" where
  "generate_post M max_len model_input =
     bindE (predict_last M model_input) (\<lambda>predicted_id.
     gen_loop_post M (max_len - length model_input) model_input predicted_id [predicted_id])"

section \<open>Auxiliary notions and example inputs\<close>

text \<open>A well-formed tensor of a given shape.\<close>

definition shape :: "'a tensor \<Rightarrow> nat \<Rightarrow> nat \<Rightarrow> bool" where
  "shape t r c = (wf_tensor t \<and> nrows t = r \<and> cols t = c)"

text \<open>Small concrete layers and inputs, used to run the definitions.\<close>

definition ex_attention :: attention where
  "ex_attention = \<lparr>W_q = \<lparr>cols = 2, vals = [[0, 0], [0, 0]]\<rparr>,
         W_k = \<lparr>cols = 2, vals = [[1, 0], [0, 1]]\<rparr>,
         W_v = \<lparr>cols = 2, vals = [[1, 0], [0, 1]]\<rparr>\<rparr>"

definition ex_x :: "real tensor" where
  "ex_x = \<lparr>cols = 2, vals = [[1, 2], [3, 4]]\<rparr>"

definition ex_attention_big :: attention where
  "ex_attention_big =
     \<lparr>W_q = \<lparr>cols = 2, vals = [[1, 0], [0, 1]]\<rparr>,
      W_k = \<lparr>cols = 2, vals = [[- 4000000000, 0], [0, - 4000000000]]\<rparr>,
      W_v = \<lparr>cols = 2, vals = [[1, 0], [0, 1]]\<rparr>\<rparr>"

definition ex_x01 :: "real tensor" where
  "ex_x01 = \<lparr>cols = 2, vals = [[0, 1], [0, 1]]\<rparr>"

text \<open>
  The decoder as the specification words it: the query of the encoder-decoder attention
  is the output of the first residual connection. Used only for comparison with
  \<open>Decoder_forward\<close>.
\<close>

definition Decoder_forward_spec :: "decoder \<Rightarrow> int list \<Rightarrow> real tensor \<Rightarrow> real tensor \<Rightarrow>
    error + real tensor" where
  "Decoder_forward_spec D token_ids embeddings_for_k embeddings_for_v =
     bindE (embedding (dec_we D) token_ids) (\<lambda>word_embeddings.
     bindE (PositionEncoding_forward (dec_pe D) word_embeddings) (\<lambda>position_encoded.
     bindE (Attention_forward (dec_self_attention D)
              position_encoded position_encoded position_encoded
              (Some (causal_mask (length token_ids)))) (\<lambda>self_attention_values.
     bindE (tensor_add position_encoded self_attention_values) (\<lambda>residual_connection_values.
     bindE (Attention_forward (dec_encoder_decoder_attention D)
              residual_connection_values embeddings_for_k embeddings_for_v None)
              (\<lambda>encoder_decoder_attention_values.
     tensor_add encoder_decoder_attention_values residual_connection_values)))))"

text \<open>
  What the constructors of the other models build, and token sequences within the
  vocabulary.
\<close>

definition wf_encoder :: "nat \<Rightarrow> nat \<Rightarrow> nat \<Rightarrow> encoder \<Rightarrow> bool" where
  "wf_encoder num_tokens d_model max_len E =
     (wf_tensor (enc_we E) \<and> nrows (enc_we E) = num_tokens \<and> cols (enc_we E) = d_model \<and>
      PositionEncoding_init d_model max_len = Inr (enc_pe E) \<and>
      wf_attention d_model (enc_attention E))"

definition wf_decoder :: "nat \<Rightarrow> nat \<Rightarrow> nat \<Rightarrow> decoder \<Rightarrow> bool" where
  "wf_decoder num_tokens d_model max_len D =
     (wf_tensor (dec_we D) \<and> nrows (dec_we D) = num_tokens \<and> cols (dec_we D) = d_model \<and>
      PositionEncoding_init d_model max_len = Inr (dec_pe D) \<and>
      wf_attention d_model (dec_self_attention D) \<and>
      wf_attention d_model (dec_encoder_decoder_attention D))"

definition wf_transformer :: "nat \<Rightarrow> nat \<Rightarrow> nat \<Rightarrow> transformer \<Rightarrow> bool" where
  "wf_transformer num_tokens d_model max_len T =
     (wf_encoder num_tokens d_model max_len (tr_encoder T) \<and>
      wf_decoder num_tokens d_model max_len (tr_decoder T) \<and>
      wf_linear d_model num_tokens (tr_fc T) \<and> tr_max_len T = max_len)"

definition wf_decoder_only :: "nat \<Rightarrow> nat \<Rightarrow> nat \<Rightarrow> decoder_only_transformer \<Rightarrow> bool" where
  "wf_decoder_only num_tokens d_model max_len M =
     (wf_tensor (do_we M) \<and> nrows (do_we M) = num_tokens \<and> cols (do_we M) = d_model \<and>
      PositionEncoding_init d_model max_len = Inr (do_pe M) \<and>
      wf_attention d_model (do_attention M) \<and>
      wf_linear d_model num_tokens (do_fc M))"

definition valid_ids :: "nat \<Rightarrow> int list \<Rightarrow> bool" where
  "valid_ids num_tokens token_ids = list_all (\<lambda>t. 0 \<le> t \<and> t < int num_tokens) token_ids"

text \<open>
  Concrete models. \<open>ex_encoder_only\<close> has the sizes of the encoder-only notebook
  (12 tokens, \<open>d_model = 2\<close>, 2 heads, \<open>max_len = 6\<close>), \<open>ex_transformer\<close> those of
  the translator (6 tokens, \<open>max_len = 5\<close>), \<open>ex_decoder_only\<close> and
  \<open>ex_decoder_only_const\<close> those of the decoder-only notebook (5 tokens,
  \<open>max_len = 6\<close>). In the last two the attention weights are zero, so that a
  prediction depends on the last token and its position only: \<open>ex_decoder_only\<close>
  answers \<open><EOS>\<close> with \<open>awesome\<close> and \<open>awesome\<close> with \<open><EOS>\<close>,
  \<open>ex_decoder_only_const\<close> always answers \<open>awesome\<close>.
\<close>

definition ex_encoder_only :: encoder_only_transformer where
  "ex_encoder_only =
     \<lparr>eo_we = \<lparr>cols = 2, vals = replicate 12 [0, 0]\<rparr>,
      eo_pe = \<lparr>cols = 2, vals = map (pe_row 2) [0..<6]\<rparr>,
      eo_multi_head_attention =
        \<lparr>attention_heads = [ex_attention, ex_attention],
         mha_fc = \<lparr>weight = \<lparr>cols = 4, vals = replicate 2 (replicate 4 0)\<rparr>, bias = [0, 0]\<rparr>\<rparr>,
      eo_cls = \<lparr>weight = \<lparr>cols = 12, vals = replicate 2 (replicate 12 0)\<rparr>, bias = [0, 0]\<rparr>\<rparr>"

definition ex_decoder :: decoder where
  "ex_decoder =
     \<lparr>dec_we = \<lparr>cols = 2, vals = [[1, - 1], [0, 0], [0, 0], [0, 0], [0, 0], [0, 0]]\<rparr>,
      dec_pe = \<lparr>cols = 2, vals = map (pe_row 2) [0..<5]\<rparr>,
      dec_self_attention =
        \<lparr>W_q = \<lparr>cols = 2, vals = [[0, 0], [0, 0]]\<rparr>,
         W_k = \<lparr>cols = 2, vals = [[0, 0], [0, 0]]\<rparr>,
         W_v = \<lparr>cols = 2, vals = [[0, 0], [1, 0]]\<rparr>\<rparr>,
      dec_encoder_decoder_attention =
        \<lparr>W_q = \<lparr>cols = 2, vals = [[0, 0], [0, 1]]\<rparr>,
         W_k = \<lparr>cols = 2, vals = [[1, 0], [0, 1]]\<rparr>,
         W_v = \<lparr>cols = 2, vals = [[1, 0], [0, 1]]\<rparr>\<rparr>\<rparr>"

definition ex_ctx :: "real tensor" where
  "ex_ctx = \<lparr>cols = 2, vals = [[0, 0], [0, 2]]\<rparr>"

definition ex_transformer :: transformer where
  "ex_transformer =
     \<lparr>tr_encoder = \<lparr>enc_we = \<lparr>cols = 2, vals = replicate 6 [0, 0]\<rparr>,
                    enc_pe = \<lparr>cols = 2, vals = map (pe_row 2) [0..<5]\<rparr>,
                    enc_attention = ex_attention\<rparr>,
      tr_decoder = ex_decoder,
      tr_fc = \<lparr>weight = \<lparr>cols = 2, vals = replicate 6 [0, 0]\<rparr>, bias = replicate 6 0\<rparr>,
      tr_max_len = 5\<rparr>"

definition ex_attention_zero :: attention where
  "ex_attention_zero =
     \<lparr>W_q = \<lparr>cols = 2, vals = [[0, 0], [0, 0]]\<rparr>,
      W_k = \<lparr>cols = 2, vals = [[0, 0], [0, 0]]\<rparr>,
      W_v = \<lparr>cols = 2, vals = [[0, 0], [0, 0]]\<rparr>\<rparr>"

definition ex_decoder_only :: decoder_only_transformer where
  "ex_decoder_only =
     \<lparr>do_we = \<lparr>cols = 2, vals = [[0, 0], [0, 0], [0, 0], [0, 10], [10, 0]]\<rparr>,
      do_pe = \<lparr>cols = 2, vals = map (pe_row 2) [0..<6]\<rparr>,
      do_attention = ex_attention_zero,
      do_fc = \<lparr>weight = \<lparr>cols = 2, vals = [[0, 0], [0, 0], [0, 0], [1, 0], [0, 1]]\<rparr>,
               bias = [0, 0, 0, - 5, - 5]\<rparr>\<rparr>"

definition ex_decoder_only_const :: decoder_only_transformer where
  "ex_decoder_only_const =
     \<lparr>do_we = \<lparr>cols = 2, vals = [[0, 0], [0, 0], [0, 0], [0, 0], [0, 0]]\<rparr>,
      do_pe = \<lparr>cols = 2, vals = map (pe_row 2) [0..<6]\<rparr>,
      do_attention = ex_attention_zero,
      do_fc = \<lparr>weight = \<lparr>cols = 2, vals = [[0, 0], [0, 0], [0, 0], [0, 0], [0, 0]]\<rparr>,
               bias = [0, 0, 0, 1, 0]\<rparr>\<rparr>"






text \<open>
  Two more inputs: \<open>ex_x02\<close> differs from \<open>ex_x01\<close> in its second row only, and
  \<open>ex_keys_empty\<close> is a sequence of no rows of width 2.
\<close>

definition ex_x02 :: "real tensor" where
  "ex_x02 = \<lparr>cols = 2, vals = [[0, 1], [0, 2]]\<rparr>"


section \<open>Shapes of the results\<close>

lemma bindE_Inr [simp]: "bindE (Inr x) f = f x"
  by (simp add: bindE_def)
lemma bindE_Inl [simp]: "bindE (Inl e) f = Inl e"
  by (simp add: bindE_def)

lemma bindE_eq_Inr: "bindE m f = Inr y \<longleftrightarrow> (\<exists>x. m = Inr x \<and> f x = Inr y)"
  by (cases m) auto

lemma bdim_same [simp]: "bdim a a = Some a"
  by (simp add: bdim_def)
lemma expand_same [simp]: "length xs = n \<Longrightarrow> expand n xs = xs"
  by (simp add: expand_def)
lemma length_expand [simp]: "length (expand n xs) = n"
  by (simp add: expand_def)
lemma bdim_None: "bdim a b = None \<longleftrightarrow> a \<noteq> b \<and> a \<noteq> 1 \<and> b \<noteq> 1"
  by (simp add: bdim_def)

lemma wf_tensor_nth: "wf_tensor t \<Longrightarrow> i < nrows t \<Longrightarrow> length (vals t ! i) = cols t"
  by (simp add: wf_tensor_def nrows_def list_all_length)

lemma shapeI: "nrows t = r \<Longrightarrow> cols t = c \<Longrightarrow> (\<And>i. i < r \<Longrightarrow> length (vals t ! i) = c) \<Longrightarrow> shape t r c"
  by (simp add: shape_def wf_tensor_def nrows_def list_all_length)

lemma shape_nth: "shape t r c \<Longrightarrow> i < r \<Longrightarrow> length (vals t ! i) = c"
  by (auto simp: shape_def wf_tensor_nth)

lemma shape_set: "shape t r c \<Longrightarrow> x \<in> set (vals t) \<Longrightarrow> length x = c"
  by (auto simp: shape_def wf_tensor_def list_all_iff)

lemma shape_dims: "shape t r c \<Longrightarrow> nrows t = r \<and> cols t = c \<and> length (vals t) = r"
  by (simp add: shape_def nrows_def)

lemma tensor_add_same:
  assumes "shape a r c" "shape b r c"
  shows "tensor_add a b = Inr \<lparr>cols = c, vals = map2 (map2 (+)) (vals a) (vals b)\<rparr>"
proof -
  have "map2 (\<lambda>x y. map2 (+) (expand c x) (expand c y)) (vals a) (vals b)
        = map2 (map2 (+)) (vals a) (vals b)"
    using assms by (auto simp: set_zip shape_nth shape_dims intro!: map_cong dest!: shape_set[OF assms(1)] shape_set[OF assms(2)] )
  then show ?thesis
    using assms by (simp add: tensor_add_def shape_dims)
qed

lemma shape_add_same:
  assumes "shape a r c" "shape b r c"
  shows "shape \<lparr>cols = c, vals = map2 (map2 (+)) (vals a) (vals b)\<rparr> r c"
  using assms by (intro shapeI) (auto simp: nrows_def shape_dims shape_nth)

lemma embedding_ok:
  assumes "wf_tensor W" "list_all (\<lambda>t. 0 \<le> t \<and> t < int (nrows W)) ids"
  shows "\<exists>e. embedding W ids = Inr e \<and> shape e (length ids) (cols W)"
proof -
  have "shape \<lparr>cols = cols W, vals = map (\<lambda>t. vals W ! nat t) ids\<rparr> (length ids) (cols W)"
    using assms by (intro shapeI) (auto simp: nrows_def list_all_length wf_tensor_def)
  then show ?thesis using assms by (simp add: embedding_def)
qed

lemma linear_nobias_ok:
  assumes "shape x n i" "cols W = i"
  shows "\<exists>y. linear_nobias W x = Inr y \<and> shape y n (nrows W)"
  using assms by (auto simp: linear_nobias_def shape_dims nrows_def intro!: shapeI)

lemma linear_forward_ok:
  assumes "shape x n i" "wf_linear i out l"
  shows "\<exists>y. linear_forward l x = Inr y \<and> shape y n out"
  using assms by (auto simp: linear_forward_def linear_row_def wf_linear_def shape_dims nrows_def intro!: shapeI)

lemma transpose_shape: "shape t r c \<Longrightarrow> shape (transpose_t t) c r"
  by (auto simp: transpose_t_def shape_dims nrows_def intro!: shapeI)

lemma matmul_ok:
  assumes "shape a n k" "shape b k m"
  shows "\<exists>y. matmul a b = Inr y \<and> shape y n m"
  using assms by (auto simp: matmul_def shape_dims nrows_def intro!: shapeI)

lemma tensor_div_shape: "shape t r c \<Longrightarrow> shape (tensor_div t x) r c"
  by (auto simp: tensor_div_def shape_def wf_tensor_def nrows_def list_all_iff)

lemma softmax_rows_shape: "shape t r c \<Longrightarrow> shape (softmax_rows t) r c"
  by (auto simp: softmax_rows_def softmax_def shape_def wf_tensor_def nrows_def list_all_iff)

lemma masked_fill_ok:
  assumes "shape x r c" "shape m r c"
  shows "\<exists>y. masked_fill x m v = Inr y \<and> shape y r c"
  using assms
  by (auto simp: masked_fill_def shape_dims nrows_def shape_nth intro!: shapeI)

lemma causal_mask_shape: "shape (causal_mask n) n n"
  by (auto simp: causal_mask_def tril_ones_def nrows_def intro!: shapeI)

section \<open>Softmax and attention weights\<close>






lemma length_softmax [simp]: "length (softmax xs) = length xs"
  by (simp add: softmax_def)

lemma scaled_sims_Inr:
  assumes "scaled_sims a q_in k_in v_in = Inr (s, v)"
  shows "nrows s = nrows q_in \<and> cols s = nrows k_in \<and> wf_tensor s \<and> nrows v = nrows v_in"
  using assms
  by (auto simp: scaled_sims_def bindE_eq_Inr linear_nobias_def matmul_def transpose_t_def
      tensor_div_def nrows_def wf_tensor_def list_all_iff split: if_splits)

lemma masked_fill_Inr:
  assumes "masked_fill x m c = Inr y" "wf_tensor x"
  shows "nrows y = nrows x \<and> cols y = cols x \<and> wf_tensor y"
proof -
  have len: "length (expand (nrows x) (vals m)) = length (vals x)"
    by (simp add: nrows_def)
  have y: "y = x\<lparr>vals := map2 (\<lambda>xr mr. map2 (\<lambda>a b. if b then c else a) xr (expand (cols x) mr))
                             (vals x) (expand (nrows x) (vals m))\<rparr>"
    using assms(1) by (auto simp: masked_fill_def split: if_splits)
  show ?thesis
    using assms(2) len unfolding y
    by (auto simp: nrows_def wf_tensor_def list_all_iff set_zip)
qed

lemma attention_percents_Inr:
  assumes "attention_percents a q_in k_in v_in m = Inr (p, v)"
  shows "\<exists>s. vals p = map softmax (vals s) \<and> nrows s = nrows q_in \<and> cols s = nrows k_in \<and> wf_tensor s
             \<and> cols p = nrows k_in \<and> nrows v = nrows v_in"
proof -
  from assms obtain s0 s' where s0: "scaled_sims a q_in k_in v_in = Inr (s0, v)"
    and s': "(case m of None \<Rightarrow> Inr s0 | Some mk \<Rightarrow> masked_fill s0 mk (- 1000000000)) = Inr s'"
    and p: "p = softmax_rows s'"
    by (auto simp: attention_percents_def bindE_eq_Inr)
  note d0 = scaled_sims_Inr[OF s0]
  have "nrows s' = nrows s0 \<and> cols s' = cols s0 \<and> wf_tensor s'"
  proof (cases m)
    case None then show ?thesis using s' d0 by simp
  next
    case (Some mk) then show ?thesis using s' d0 masked_fill_Inr[of s0 mk _ s'] by simp
  qed
  then show ?thesis using d0 p by (auto simp: softmax_rows_def)
qed




section \<open>Position encoding: the table and its application\<close>

lemma PositionEncoding_init_even:
  assumes "even d_model"
  shows "PositionEncoding_init d_model max_len
         = Inr \<lparr>cols = d_model, vals = map (pe_row d_model) [0..<max_len]\<rparr>"
proof -
  have "(d_model + 1) div 2 = d_model div 2" using assms by (auto elim!: evenE)
  then show ?thesis by (simp add: PositionEncoding_init_def)
qed

lemma PositionEncoding_init_Inr:
  assumes "PositionEncoding_init d_model max_len = Inr pe"
  shows "pe = \<lparr>cols = d_model, vals = map (pe_row d_model) [0..<max_len]\<rparr>"
  using assms by (auto simp: PositionEncoding_init_def split: if_splits)

lemma pe_table_shape:
  "shape \<lparr>cols = d_model, vals = map (pe_row d_model) [0..<max_len]\<rparr> max_len d_model"
  by (intro shapeI) (auto simp: nrows_def pe_row_def)

lemma pe_row_even: "2 * i < d_model \<Longrightarrow>
   pe_row d_model pos ! (2 * i) = sin (real pos / 10000 powr (real (2 * i) / real d_model))"
  by (simp add: pe_row_def div_term_def)

lemma pe_row_odd: "2 * i + 1 < d_model \<Longrightarrow>
   pe_row d_model pos ! (2 * i + 1) = cos (real pos / 10000 powr (real (2 * i) / real d_model))"
  by (simp add: pe_row_def div_term_def)

lemma PositionEncoding_forward_valid:
  assumes pe: "shape pe max_len d_model" and E: "shape E L d_model" and L: "L \<le> max_len"
  shows "\<exists>R. PositionEncoding_forward pe E = Inr R \<and> shape R L d_model \<and>
             (\<forall>i<L. \<forall>j<d_model. entry R i j = entry E i j + entry pe i j)"
proof -
  let ?S = "pe\<lparr>vals := take (nrows E) (vals pe)\<rparr>"
  have S: "shape ?S L d_model"
    using pe E L by (intro shapeI) (auto simp: nrows_def shape_dims shape_nth)
  let ?R = "\<lparr>cols = d_model, vals = map2 (map2 (+)) (vals E) (vals ?S)\<rparr>"
  have eq: "PositionEncoding_forward pe E = Inr ?R"
    unfolding PositionEncoding_forward_def by (rule tensor_add_same[OF E S])
  have sh: "shape ?R L d_model" by (rule shape_add_same[OF E S])
  have "entry ?R i j = entry E i j + entry pe i j" if "i < L" "j < d_model" for i j
    using that pe E L by (simp add: entry_def shape_dims shape_nth)
  with eq sh show ?thesis by blast
qed

text \<open>
  Claim C6. For every even \<open>d_model \<ge> 2\<close> and \<open>max_len \<ge> 1\<close> the constructor
  succeeds with a \<open>max_len \<times> d_model\<close> table whose entry \<open>(pos, 2i)\<close> is
  \<open>sin (pos / 10000^(2i/d_model))\<close> and whose entry \<open>(pos, 2i+1)\<close> is
  \<open>cos (pos / 10000^(2i/d_model))\<close>, and \<open>forward\<close> on embeddings of width
  \<open>d_model\<close> and length \<open>L \<le> max_len\<close> returns the elementwise sum of the
  embeddings and the first \<open>L\<close> rows of the table.
\<close>

theorem PositionEncoding_table:
  assumes "even d_model" "2 \<le> d_model" "1 \<le> max_len"
  shows "\<exists>pe. PositionEncoding_init d_model max_len = Inr pe \<and>
           nrows pe = max_len \<and> cols pe = d_model \<and> wf_tensor pe \<and>
           (\<forall>pos<max_len. \<forall>i. 2 * i < d_model \<longrightarrow>
              entry pe pos (2 * i) = sin (real pos / 10000 powr (real (2 * i) / real d_model)) \<and>
              entry pe pos (2 * i + 1) = cos (real pos / 10000 powr (real (2 * i) / real d_model))) \<and>
           (\<forall>E. wf_tensor E \<and> cols E = d_model \<and> nrows E \<le> max_len \<longrightarrow>
              (\<exists>R. PositionEncoding_forward pe E = Inr R \<and>
                   nrows R = nrows E \<and> cols R = d_model \<and> wf_tensor R \<and>
                   (\<forall>i<nrows E. \<forall>j<d_model. entry R i j = entry E i j + entry pe i j)))"
proof -
  let ?pe = "\<lparr>cols = d_model, vals = map (pe_row d_model) [0..<max_len]\<rparr>"
  have init: "PositionEncoding_init d_model max_len = Inr ?pe"
    by (rule PositionEncoding_init_even[OF assms(1)])
  have sh: "shape ?pe max_len d_model" by (rule pe_table_shape)
  have entries: "entry ?pe pos (2 * i) = sin (real pos / 10000 powr (real (2 * i) / real d_model)) \<and>
        entry ?pe pos (2 * i + 1) = cos (real pos / 10000 powr (real (2 * i) / real d_model))"
    if "pos < max_len" "2 * i < d_model" for pos i
  proof -
    have "2 * i + 1 < d_model" using that(2) assms(1) by (auto elim!: evenE)
    then show ?thesis
      using that pe_row_even[of i d_model pos] pe_row_odd[of i d_model pos]
      by (simp add: entry_def)
  qed
  have fwd: "\<exists>R. PositionEncoding_forward ?pe E = Inr R \<and>
                   nrows R = nrows E \<and> cols R = d_model \<and> wf_tensor R \<and>
                   (\<forall>i<nrows E. \<forall>j<d_model. entry R i j = entry E i j + entry ?pe i j)"
    if "wf_tensor E \<and> cols E = d_model \<and> nrows E \<le> max_len" for E
  proof -
    have E: "shape E (nrows E) d_model" using that by (simp add: shape_def)
    from PositionEncoding_forward_valid[OF sh E] that
    show ?thesis by (auto simp: shape_def)
  qed
  show ?thesis
    using init sh entries fwd unfolding shape_def by blast
qed

lemma pe_row_2: "pe_row 2 pos = [sin (real pos), cos (real pos)]"
  by (simp add: pe_row_def div_term_def upt_conv_Cons numeral_2_eq_2)

theorem PositionEncoding_table_witness:
  "even (2::nat) \<and> (2::nat) \<le> 2 \<and> (1::nat) \<le> 6 \<and>
   (\<exists>pe. PositionEncoding_init 2 6 = Inr pe \<and> nrows pe = 6 \<and> cols pe = 2 \<and>
      entry pe 3 0 = sin 3 \<and> entry pe 3 1 = cos 3 \<and>
      (\<exists>R. PositionEncoding_forward pe ex_x = Inr R \<and> nrows R = 2 \<and>
           entry R 1 0 = entry ex_x 1 0 + entry pe 1 0))"
proof -
  have x: "wf_tensor ex_x \<and> cols ex_x = 2 \<and> nrows ex_x \<le> 6"
    by (simp add: ex_x_def wf_tensor_def nrows_def)
  have n: "nrows ex_x = 2"
    by (simp add: ex_x_def nrows_def)
  from PositionEncoding_table[of 2 6] obtain pe where
    pe: "PositionEncoding_init 2 6 = Inr pe" "nrows pe = 6" "cols pe = 2"
    and tab: "\<forall>pos<6. \<forall>i. 2 * i < 2 \<longrightarrow>
              entry pe pos (2 * i) = sin (real pos / 10000 powr (real (2 * i) / real 2)) \<and>
              entry pe pos (2 * i + 1) = cos (real pos / 10000 powr (real (2 * i) / real 2))"
    and fwd: "\<forall>E. wf_tensor E \<and> cols E = 2 \<and> nrows E \<le> 6 \<longrightarrow>
              (\<exists>R. PositionEncoding_forward pe E = Inr R \<and>
                   nrows R = nrows E \<and> cols R = 2 \<and> wf_tensor R \<and>
                   (\<forall>i<nrows E. \<forall>j<2. entry R i j = entry E i j + entry pe i j))"
    by auto
  have e: "entry pe 3 0 = sin 3 \<and> entry pe 3 1 = cos 3"
    using tab[rule_format, of 3 0] by simp
  from fwd x obtain R where R: "PositionEncoding_forward pe ex_x = Inr R" "nrows R = nrows ex_x"
    "\<forall>i<nrows ex_x. \<forall>j<2. entry R i j = entry ex_x i j + entry pe i j"
    by blast
  from R(3) n have "entry R 1 0 = entry ex_x 1 0 + entry pe 1 0"
    by simp
  with pe e R n show ?thesis
    by auto
qed

text \<open>
  Claim C3, as amended. \<open>forward\<close> has no check of its own: it fails exactly when the
  tensor addition cannot broadcast the embeddings \<open>[L, w]\<close> against the table slice,
  that is, when \<open>L > max_len\<close> and neither \<open>L\<close> nor \<open>max_len\<close> is 1, or when
  \<open>w \<noteq> d_model\<close> and neither \<open>w\<close> nor \<open>d_model\<close> is 1; the error is a shape error.
  In every other case, so in particular for every valid input, it succeeds.
\<close>

theorem PositionEncoding_forward_errors:
  assumes "PositionEncoding_init d_model max_len = Inr pe"
  shows "(PositionEncoding_forward pe E = Inl ShapeError) =
           ((max_len < nrows E \<and> nrows E \<noteq> 1 \<and> max_len \<noteq> 1) \<or>
            (cols E \<noteq> d_model \<and> cols E \<noteq> 1 \<and> d_model \<noteq> 1))
         \<and> (\<exists>R. PositionEncoding_forward pe E = Inr R) =
           (\<not> ((max_len < nrows E \<and> nrows E \<noteq> 1 \<and> max_len \<noteq> 1) \<or>
               (cols E \<noteq> d_model \<and> cols E \<noteq> 1 \<and> d_model \<noteq> 1)))"
proof -
  have pe: "nrows pe = max_len" "cols pe = d_model"
    using PositionEncoding_init_Inr[OF assms] by (simp_all add: nrows_def)
  show ?thesis
    using pe
    by (auto simp: PositionEncoding_forward_def tensor_add_def bdim_def nrows_def min_def
        split: option.splits if_splits)
qed

theorem PositionEncoding_forward_errors_witness:
  "PositionEncoding_init 2 6 = Inr \<lparr>cols = 2, vals = map (pe_row 2) [0..<6]\<rparr> \<and>
   PositionEncoding_forward \<lparr>cols = 2, vals = map (pe_row 2) [0..<6]\<rparr>
     \<lparr>cols = 2, vals = replicate 7 [0, 0]\<rparr> = Inl ShapeError \<and>
   (\<exists>R. PositionEncoding_forward \<lparr>cols = 2, vals = map (pe_row 2) [0..<6]\<rparr> ex_x = Inr R)"
proof -
  have i: "PositionEncoding_init 2 6 = Inr \<lparr>cols = 2, vals = map (pe_row 2) [0..<6]\<rparr>"
    by (simp add: PositionEncoding_init_even)
  have a: "PositionEncoding_forward \<lparr>cols = 2, vals = map (pe_row 2) [0..<6]\<rparr>
     \<lparr>cols = 2, vals = replicate 7 [0, 0]\<rparr> = Inl ShapeError"
    using PositionEncoding_forward_errors[OF i, of "\<lparr>cols = 2, vals = replicate 7 [0, 0]\<rparr>"]
    by (simp add: nrows_def)
  have b: "\<exists>R. PositionEncoding_forward \<lparr>cols = 2, vals = map (pe_row 2) [0..<6]\<rparr> ex_x = Inr R"
    using PositionEncoding_forward_errors[OF i, of ex_x]
    by (simp add: nrows_def ex_x_def)
  from i a b show ?thesis
    by blast
qed

text \<open>
  The claim as stated fails: with \<open>max_len = 1\<close> a sequence of two embeddings is longer
  than the table and is accepted (the single table row is broadcast), and with
  \<open>d_model = 2\<close> embeddings of width 1 are accepted (their column is broadcast).
\<close>

theorem PositionEncoding_forward_counterexample:
  "PositionEncoding_init 2 1 = Inr \<lparr>cols = 2, vals = [[0, 1]]\<rparr> \<and>
   PositionEncoding_forward \<lparr>cols = 2, vals = [[0, 1]]\<rparr> \<lparr>cols = 2, vals = [[1, 2], [3, 4]]\<rparr>
     = Inr \<lparr>cols = 2, vals = [[1, 3], [3, 5]]\<rparr> \<and>
   PositionEncoding_forward \<lparr>cols = 2, vals = [[0, 1]]\<rparr> \<lparr>cols = 1, vals = [[5]]\<rparr>
     = Inr \<lparr>cols = 2, vals = [[5, 6]]\<rparr>"
proof -
  have r: "replicate 2 (5::real) = [5, 5]"
    by (simp add: numeral_2_eq_2)
  show ?thesis
    by (simp add: PositionEncoding_init_even pe_row_2 PositionEncoding_forward_def tensor_add_def
        bdim_def nrows_def expand_def r)
qed

section \<open>Attention weights\<close>

lemmas eval_defs = attention_percents_def attention_percents_dec_def scaled_sims_def
  linear_nobias_def matmul_def transpose_t_def tensor_div_def softmax_rows_def softmax_def
  masked_fill_def nrows_def dot_def expand_def causal_mask_def tril_ones_def
  Attention_forward_def Attention_forward_dec_def

lemma upt_2: "[0..<2] = [0, Suc 0]"
  by (simp add: upt_conv_Cons numeral_2_eq_2)

lemma ex_attention_sims:
  "scaled_sims ex_attention ex_x ex_x ex_x = Inr (\<lparr>cols = 2, vals = [[0, 0], [0, 0]]\<rparr>, ex_x)"
  by (simp add: eval_defs ex_attention_def ex_x_def upt_2)

lemma wf_ex_attention: "wf_attention 2 ex_attention"
  by (simp add: wf_attention_def ex_attention_def wf_tensor_def nrows_def)

















lemma attention_percents_dec_Some:
  "attention_percents_dec a q k v (Some m) = attention_percents a q k v (Some m)"
  by (simp add: attention_percents_dec_def attention_percents_def)

text \<open>The mask built for a sequence of length \<open>n\<close> is true at \<open>(i, j)\<close> exactly when \<open>j > i\<close>.\<close>

lemma causal_mask_entry: "i < n \<Longrightarrow> j < n \<Longrightarrow> entry (causal_mask n) i j = (i < j)"
  by (auto simp: causal_mask_def tril_ones_def entry_def)

lemma ex_big_sims: "scaled_sims ex_attention_big ex_x01 ex_x01 ex_x01
   = Inr (\<lparr>cols = 2, vals = [[- 4000000000 / sqrt 2, - 4000000000 / sqrt 2],
                              [- 4000000000 / sqrt 2, - 4000000000 / sqrt 2]]\<rparr>, ex_x01)"
  by (simp add: eval_defs ex_attention_big_def ex_x01_def upt_2)

lemma ex_big_percents: "attention_percents_dec ex_attention_big ex_x01 ex_x01 ex_x01 (Some (causal_mask 2))
   = Inr (\<lparr>cols = 2, vals = [[exp (- 4000000000 / sqrt 2) / (exp (- 4000000000 / sqrt 2) + exp (- 1000000000)),
                               exp (- 1000000000) / (exp (- 4000000000 / sqrt 2) + exp (- 1000000000))],
                              [1 / 2, 1 / 2]]\<rparr>, ex_x01)"
  by (simp add: attention_percents_dec_def ex_big_sims)
     (simp add: masked_fill_def causal_mask_def tril_ones_def nrows_def expand_def upt_2 softmax_rows_def softmax_def)

lemma half_le: "a \<le> b \<Longrightarrow> 1 / 2 \<le> exp b / (exp a + exp (b::real))"
proof -
  assume "a \<le> b"
  then have "exp a \<le> exp b" by simp
  moreover have "0 < exp a + exp b" by (simp add: add_pos_pos)
  ultimately show ?thesis by (simp add: field_simps)
qed

lemma ex_big_weight: "1 / 2 \<le> exp (- 1000000000) / (exp (- (4000000000 / sqrt 2)) + exp (- 1000000000 :: real))"
proof -
  have "sqrt 2 \<le> 4"
    using sqrt2_less_2 by simp
  then have "- (4000000000 / sqrt 2) \<le> (- 1000000000 :: real)"
    by (simp add: field_simps)
  then show ?thesis
    by (rule half_le)
qed

lemma ex_big_out01:
  "Attention_forward_dec ex_attention_big ex_x01 ex_x01 ex_x01 (Some (causal_mask 2))
   = Inr \<lparr>cols = 2, vals = [[0, 1], [0, 1]]\<rparr>"
proof -
  have z: "exp (- (4000000000 / sqrt 2)) + exp (- 1000000000 :: real) \<noteq> 0"
    using exp_gt_zero[of "- (4000000000 / sqrt 2) :: real"] exp_gt_zero[of "- 1000000000 :: real"]
    by linarith
  have "exp (- (4000000000 / sqrt 2)) / (exp (- (4000000000 / sqrt 2)) + exp (- 1000000000)) +
        exp (- 1000000000) / (exp (- (4000000000 / sqrt 2)) + exp (- 1000000000 :: real)) = 1"
    using z by (simp add: add_divide_distrib[symmetric])
  then show ?thesis
    by (simp add: eval_defs ex_attention_big_def ex_x01_def upt_2)
qed

lemma ex_big_out02:
  "Attention_forward_dec ex_attention_big ex_x02 ex_x02 ex_x02 (Some (causal_mask 2))
   = Inr \<lparr>cols = 2, vals =
       [[0, exp (- (4000000000 / sqrt 2)) /
              (exp (- (4000000000 / sqrt 2)) + exp (- 1000000000)) +
            exp (- 1000000000) * 2 /
              (exp (- (4000000000 / sqrt 2)) + exp (- 1000000000))],
        [0, exp (- (8000000000 / sqrt 2)) /
              (exp (- (8000000000 / sqrt 2)) + exp (- (16000000000 / sqrt 2))) +
            exp (- (16000000000 / sqrt 2)) * 2 /
              (exp (- (8000000000 / sqrt 2)) + exp (- (16000000000 / sqrt 2)))]]\<rparr>"
  by (simp add: eval_defs ex_attention_big_def ex_x02_def upt_2)

lemma ex_big_row0:
  "3 / 2 \<le> exp (- (4000000000 / sqrt 2)) /
              (exp (- (4000000000 / sqrt 2)) + exp (- 1000000000)) +
            exp (- 1000000000) * 2 /
              (exp (- (4000000000 / sqrt 2)) + exp (- 1000000000 :: real))"
proof -
  let ?a = "exp (- (4000000000 / sqrt 2) :: real)"
  let ?b = "exp (- 1000000000 :: real)"
  have pos: "0 < ?a + ?b"
    by (simp add: add_pos_pos)
  have "?a / (?a + ?b) + ?b * 2 / (?a + ?b) = ((?a + ?b) + ?b) / (?a + ?b)"
    by (simp add: add_divide_distrib[symmetric])
  also have "\<dots> = (?a + ?b) / (?a + ?b) + ?b / (?a + ?b)"
    by (rule add_divide_distrib)
  also have "\<dots> = 1 + ?b / (?a + ?b)"
    using pos by simp
  finally show ?thesis
    using ex_big_weight by linarith
qed

text \<open>
  Claim C2. The masked score is the finite sentinel \<open>-1e9\<close>, so the mask hides a
  later position only while the unmasked scores of the row stay well above the
  sentinel. With the key weights \<open>-4e9\<close> the scaled score of position 0 on itself is
  \<open>-4e9 / sqrt 2\<close>, below the sentinel: position 0 gives at least half of its weight
  to the later position 1, and row 0 of the output follows the value row of position
  1: it is \<open>1\<close> in the second column on \<open>ex_x01\<close> and at least \<open>3/2\<close> on
  \<open>ex_x02\<close>, which differs from \<open>ex_x01\<close> at position 1 only.
\<close>

theorem causal_mask_extreme_scores:
  "vals ex_x01 ! 0 = vals ex_x02 ! 0 \<and>
   (\<exists>p v. attention_percents_dec ex_attention_big ex_x01 ex_x01 ex_x01
             (Some (causal_mask (nrows ex_x01))) = Inr (p, v) \<and> 1 / 2 \<le> entry p 0 1) \<and>
   (\<exists>out. Attention_forward_dec ex_attention_big ex_x01 ex_x01 ex_x01
             (Some (causal_mask (nrows ex_x01))) = Inr out \<and> entry out 0 1 = 1) \<and>
   (\<exists>out. Attention_forward_dec ex_attention_big ex_x02 ex_x02 ex_x02
             (Some (causal_mask (nrows ex_x02))) = Inr out \<and> 3 / 2 \<le> entry out 0 1)"
proof -
  have n: "nrows ex_x01 = 2" "nrows ex_x02 = 2"
    by (simp_all add: ex_x01_def ex_x02_def nrows_def)
  have r: "vals ex_x01 ! 0 = vals ex_x02 ! 0"
    by (simp add: ex_x01_def ex_x02_def)
  have a: "\<exists>p v. attention_percents_dec ex_attention_big ex_x01 ex_x01 ex_x01
             (Some (causal_mask (nrows ex_x01))) = Inr (p, v) \<and> 1 / 2 \<le> entry p 0 1"
    using ex_big_weight by (simp add: n ex_big_percents entry_def)
  have b: "\<exists>out. Attention_forward_dec ex_attention_big ex_x01 ex_x01 ex_x01
             (Some (causal_mask (nrows ex_x01))) = Inr out \<and> entry out 0 1 = 1"
    by (simp add: n ex_big_out01 entry_def)
  have c: "\<exists>out. Attention_forward_dec ex_attention_big ex_x02 ex_x02 ex_x02
             (Some (causal_mask (nrows ex_x02))) = Inr out \<and> 3 / 2 \<le> entry out 0 1"
    using ex_big_row0 by (simp add: n ex_big_out02 entry_def)
  from r a b c show ?thesis
    by blast
qed

text \<open>
  Claim C5. In the decoder-only notebook a call of the attention layer without a mask
  never returns a value: once the projections and the scores are computed, moving the
  absent mask to the device raises. The layer of the other two notebooks skips the
  masking step on the same call and applies the softmax to the scaled scores.
\<close>

theorem Attention_dec_mask_None:
  "(\<exists>e. Attention_forward_dec a q k v None = Inl e) \<and>
   (\<forall>s pv. scaled_sims a q k v = Inr (s, pv) \<longrightarrow>
        Attention_forward_dec a q k v None = Inl AttributeError \<and>
        Attention_forward a q k v None = matmul (softmax_rows s) pv)"
  by (cases "scaled_sims a q k v")
     (auto simp: Attention_forward_dec_def attention_percents_dec_def attention_percents_def
       Attention_forward_def)

theorem Attention_dec_mask_None_witness:
  "scaled_sims ex_attention ex_x ex_x ex_x = Inr (\<lparr>cols = 2, vals = [[0, 0], [0, 0]]\<rparr>, ex_x) \<and>
   Attention_forward_dec ex_attention ex_x ex_x ex_x None = Inl AttributeError"
  using Attention_dec_mask_None[of ex_attention ex_x ex_x ex_x] ex_attention_sims
  by blast

section \<open>Multi-head attention and the encoder-only classifier\<close>

lemma tensor_add_Inr:
  assumes "tensor_add a b = Inr t"
  shows "wf_tensor t \<and> bdim (nrows a) (nrows b) = Some (nrows t) \<and>
         bdim (cols a) (cols b) = Some (cols t)"
proof -
  from assms obtain r c where rc: "bdim (nrows a) (nrows b) = Some r" "bdim (cols a) (cols b) = Some c"
    and t: "t = \<lparr>cols = c, vals = map2 (\<lambda>x y. map2 (+) (expand c x) (expand c y))
                        (expand r (vals a)) (expand r (vals b))\<rparr>"
    by (auto simp: tensor_add_def split: option.splits)
  show ?thesis
    unfolding t using rc by (auto simp: wf_tensor_def list_all_iff nrows_def set_zip)
qed

lemma embedding_Inr:
  assumes "embedding W ids = Inr w" "wf_tensor W"
  shows "shape w (length ids) (cols W) \<and> list_all (\<lambda>t. 0 \<le> t \<and> t < int (nrows W)) ids"
proof -
  have v: "list_all (\<lambda>t. 0 \<le> t \<and> t < int (nrows W)) ids"
    using assms(1) by (auto simp: embedding_def split: if_splits)
  from embedding_ok[OF assms(2) v] assms(1) show ?thesis using v by auto
qed

lemma PositionEncoding_forward_Inr:
  assumes "PositionEncoding_forward pe w = Inr p" "nrows pe = max_len" "0 < max_len"
    "cols pe = d" "cols w = d"
  shows "shape p (nrows w) d"
proof -
  note t = tensor_add_Inr[OF assms(1)[unfolded PositionEncoding_forward_def]]
  have "bdim (nrows w) (min (nrows w) max_len) = Some (nrows p)"
    using t assms(2) by (simp add: nrows_def min.commute)
  then have "nrows p = nrows w"
    using assms(3) by (auto simp: bdim_def min_def split: if_splits)
  moreover have "cols p = d" using t assms(4,5) by simp
  ultimately show ?thesis using t by (simp add: shape_def)
qed

lemma matmul_Inr:
  assumes "matmul a b = Inr y"
  shows "shape y (nrows a) (cols b) \<and> cols a = nrows b"
  using assms by (auto simp: matmul_def nrows_def split: if_splits intro!: shapeI)

lemma Attention_forward_Inr:
  assumes "Attention_forward a q k v m = Inr out"
  shows "shape out (nrows q) (nrows (W_v a))"
proof -
  from assms obtain p pv where p: "attention_percents a q k v m = Inr (p, pv)"
    and mm: "matmul p pv = Inr out"
    by (auto simp: Attention_forward_def bindE_eq_Inr)
  from attention_percents_Inr[OF p] have np: "nrows p = nrows q"
    by (auto simp: nrows_def)
  from p have "cols pv = nrows (W_v a)"
    by (auto simp: attention_percents_def scaled_sims_def bindE_eq_Inr linear_nobias_def
        split: if_splits)
  with matmul_Inr[OF mm] np show ?thesis by simp
qed

lemma scaled_sims_ok:
  assumes "wf_attention d a" "shape q n d" "shape k l d" "shape v l d"
  shows "\<exists>s pv. scaled_sims a q k v = Inr (s, pv) \<and> shape s n l \<and> shape pv l d"
proof -
  from assms(1) have W: "cols (W_q a) = d" "cols (W_k a) = d" "cols (W_v a) = d"
    "nrows (W_q a) = d" "nrows (W_k a) = d" "nrows (W_v a) = d"
    by (simp_all add: wf_attention_def)
  from linear_nobias_ok[OF assms(2) W(1)] W(4) obtain q' where
    q': "linear_nobias (W_q a) q = Inr q'" "shape q' n d" by auto
  from linear_nobias_ok[OF assms(3) W(2)] W(5) obtain k' where
    k': "linear_nobias (W_k a) k = Inr k'" "shape k' l d" by auto
  from linear_nobias_ok[OF assms(4) W(3)] W(6) obtain v' where
    v': "linear_nobias (W_v a) v = Inr v'" "shape v' l d" by auto
  from matmul_ok[OF q'(2) transpose_shape[OF k'(2)]] obtain s where
    s: "matmul q' (transpose_t k') = Inr s" "shape s n l" by auto
  show ?thesis
    using q' k' v' s tensor_div_shape[OF s(2)] by (simp add: scaled_sims_def)
qed

lemma Attention_forward_ok:
  assumes "wf_attention d a" "shape q n d" "shape k l d" "shape v l d"
    "m = None \<or> (\<exists>mk. m = Some mk \<and> shape mk n l)"
  shows "\<exists>out. Attention_forward a q k v m = Inr out \<and> shape out n d"
proof -
  from scaled_sims_ok[OF assms(1-4)] obtain s pv where
    s: "scaled_sims a q k v = Inr (s, pv)" "shape s n l" "shape pv l d" by blast
  have "\<exists>s'. (case m of None \<Rightarrow> Inr s | Some mk \<Rightarrow> masked_fill s mk (- 1000000000)) = Inr s'
        \<and> shape s' n l"
    using assms(5) s(2) masked_fill_ok[OF s(2)] by (auto split: option.splits)
  then obtain s' where s': "(case m of None \<Rightarrow> Inr s | Some mk \<Rightarrow> masked_fill s mk (- 1000000000)) = Inr s'"
    "shape s' n l" by blast
  from matmul_ok[OF softmax_rows_shape[OF s'(2)] s(3)] obtain out where
    "matmul (softmax_rows s') pv = Inr out" "shape out n d" by blast
  then show ?thesis using s s' by (simp add: Attention_forward_def attention_percents_def)
qed

lemma Attention_forward_dec_Some:
  "Attention_forward_dec a q k v (Some m) = Attention_forward a q k v (Some m)"
  by (simp add: Attention_forward_dec_def Attention_forward_def attention_percents_dec_Some)

lemma heads_forward_Inr:
  assumes "heads_forward hs q k v m = Inr outs"
  shows "length outs = length hs \<and> (\<forall>u\<in>set outs. nrows u = nrows q)"
  using assms
proof (induction hs arbitrary: outs)
  case Nil then show ?case by simp
next
  case (Cons a hs)
  from Cons.prems obtain x xs where x: "Attention_forward a q k v m = Inr x"
    and xs: "heads_forward hs q k v m = Inr xs" and outs: "outs = x # xs"
    by (auto split: sum.splits)
  from Attention_forward_Inr[OF x] have "nrows x = nrows q"
    by (simp add: shape_def)
  with Cons.IH[OF xs] outs show ?case
    by simp
qed

lemma heads_forward_ok:
  assumes "list_all (wf_attention d) hs" "shape q n d" "shape k l d" "shape v l d"
  shows "\<exists>outs. heads_forward hs q k v None = Inr outs \<and> length outs = length hs \<and>
           (\<forall>u\<in>set outs. shape u n d)"
  using assms(1)
proof (induction hs)
  case Nil then show ?case by simp
next
  case (Cons a hs)
  from Cons.prems have a: "wf_attention d a" and hs: "list_all (wf_attention d) hs" by simp_all
  from Attention_forward_ok[OF a assms(2-4)] obtain x where
    x: "Attention_forward a q k v None = Inr x" "shape x n d" by blast
  from Cons.IH[OF hs] obtain outs where
    o: "heads_forward hs q k v None = Inr outs" "length outs = length hs" "\<forall>u\<in>set outs. shape u n d"
    by blast
  show ?case using x o by simp
qed

lemma cat1_Inr:
  assumes "cat1 ts = Inr agg"
  shows "ts \<noteq> [] \<and> nrows agg = nrows (hd ts) \<and> cols agg = sum_list (map cols ts)"
  using assms by (auto simp: cat1_def nrows_def split: list.splits if_splits)

lemma sum_list_const: "(\<forall>x\<in>set xs. f x = (c::nat)) \<Longrightarrow> sum_list (map f xs) = length xs * c"
  by (induction xs) auto

lemma cat1_ok:
  assumes "ts \<noteq> []" "\<forall>t\<in>set ts. shape t n d"
  shows "\<exists>agg. cat1 ts = Inr agg \<and> shape agg n (length ts * d)"
proof -
  from assms(1) obtain t rest where ts: "ts = t # rest" by (cases ts) auto
  have all: "list_all (\<lambda>u. nrows u = nrows t) rest"
    using assms(2) ts by (auto simp: list_all_iff shape_def)
  have nt: "nrows t = n" using assms(2) ts by (simp add: shape_def)
  have c: "sum_list (map cols ts) = length ts * d"
    using assms(2) by (intro sum_list_const) (auto simp: shape_def)
  let ?agg = "\<lparr>cols = sum_list (map cols ts),
                   vals = map (\<lambda>i. concat (map (\<lambda>u. vals u ! i) ts)) [0..<nrows t]\<rparr>"
  have eq: "cat1 ts = Inr ?agg" using all ts by (simp add: cat1_def)
  have len: "length (concat (map (\<lambda>u. vals u ! i) ts)) = length ts * d" if "i < n" for i
  proof -
    have "length (concat (map (\<lambda>u. vals u ! i) ts)) = sum_list (map (\<lambda>u. length (vals u ! i)) ts)"
      by (simp add: length_concat comp_def)
    also have "\<dots> = length ts * d"
      using assms(2) that by (intro sum_list_const) (auto simp: shape_nth)
    finally show ?thesis .
  qed
  have "shape ?agg n (length ts * d)"
    using nt c len by (intro shapeI) (auto simp: nrows_def)
  with eq show ?thesis by blast
qed

lemma linear_forward_Inr:
  assumes "linear_forward l x = Inr y"
  shows "nrows y = nrows x \<and> cols y = nrows (weight l) \<and> cols x = cols (weight l)"
  using assms by (auto simp: linear_forward_def nrows_def split: if_splits)

lemma MultiHeadAttention_forward_Inr:
  assumes "MultiHeadAttention_forward mh q k v m = Inr sa"
  shows "nrows sa = nrows q \<and> cols sa = nrows (weight (mha_fc mh))"
proof -
  from assms obtain outs agg where o: "heads_forward (attention_heads mh) q k v m = Inr outs"
    and c: "cat1 outs = Inr agg" and l: "linear_forward (mha_fc mh) agg = Inr sa"
    by (auto simp: MultiHeadAttention_forward_def bindE_eq_Inr)
  from cat1_Inr[OF c] have "outs \<noteq> []" "nrows agg = nrows (hd outs)" by simp_all
  moreover from this heads_forward_Inr[OF o] have "nrows (hd outs) = nrows q" by simp
  ultimately show ?thesis using linear_forward_Inr[OF l] by simp
qed

lemma MultiHeadAttention_forward_ok:
  assumes "list_all (wf_attention d) (attention_heads mh)" "attention_heads mh \<noteq> []"
    "wf_linear (length (attention_heads mh) * d) d (mha_fc mh)" "shape x n d"
  shows "\<exists>sa. MultiHeadAttention_forward mh x x x None = Inr sa \<and> shape sa n d"
proof -
  from heads_forward_ok[OF assms(1) assms(4) assms(4) assms(4)] obtain outs where
    o: "heads_forward (attention_heads mh) x x x None = Inr outs"
       "length outs = length (attention_heads mh)" "\<forall>u\<in>set outs. shape u n d" by blast
  have ne: "outs \<noteq> []" using o(2) assms(2) by auto
  from cat1_ok[OF ne o(3)] obtain agg where
    a: "cat1 outs = Inr agg" "shape agg n (length outs * d)" by blast
  from linear_forward_ok[OF a(2)] assms(3) o(2) obtain sa where
    "linear_forward (mha_fc mh) agg = Inr sa" "shape sa n d" by auto
  then show ?thesis using o a by (simp add: MultiHeadAttention_forward_def)
qed

lemma shape_concat: "shape r n d \<Longrightarrow> length (concat (vals r)) = n * d"
proof -
  assume r: "shape r n d"
  have "length (concat (vals r)) = sum_list (map length (vals r))"
    by (simp add: length_concat)
  also have "\<dots> = length (vals r) * d"
    using r by (intro sum_list_const) (auto dest: shape_set)
  finally show ?thesis using r by (simp add: shape_dims)
qed

lemma wf_encoder_only_pe:
  assumes "wf_encoder_only num_tokens d_model head max_len M"
  shows "shape (eo_pe M) max_len d_model"
  using assms PositionEncoding_init_Inr[of d_model max_len "eo_pe M"] pe_table_shape[of d_model max_len]
  by (simp add: wf_encoder_only_def)

lemma EncoderOnly_residual_Inr:
  assumes wf: "wf_encoder_only num_tokens d_model head max_len M" and ml: "0 < max_len"
    and r: "EncoderOnly_residual M token_ids = Inr r"
  shows "shape r (length token_ids) d_model"
proof -
  from r obtain w p sa where w: "embedding (eo_we M) token_ids = Inr w"
    and p: "PositionEncoding_forward (eo_pe M) w = Inr p"
    and sa: "MultiHeadAttention_forward (eo_multi_head_attention M) p p p None = Inr sa"
    and add: "tensor_add p sa = Inr r"
    by (auto simp: EncoderOnly_residual_def bindE_eq_Inr)
  from wf have we: "wf_tensor (eo_we M)" "cols (eo_we M) = d_model"
    and fc: "nrows (weight (mha_fc (eo_multi_head_attention M))) = d_model"
    by (simp_all add: wf_encoder_only_def wf_linear_def)
  from embedding_Inr[OF w we(1)] we(2) have sw: "shape w (length token_ids) d_model" by simp
  note spe = wf_encoder_only_pe[OF wf]
  from PositionEncoding_forward_Inr[OF p _ ml, of d_model] spe sw
  have sp: "shape p (length token_ids) d_model" by (simp add: shape_def)
  from MultiHeadAttention_forward_Inr[OF sa] fc sp
  have dsa: "nrows sa = length token_ids" "cols sa = d_model" by (simp_all add: shape_def)
  from tensor_add_Inr[OF add] sp dsa show ?thesis by (simp add: shape_def)
qed

lemma EncoderOnly_residual_ok:
  assumes wf: "wf_encoder_only num_tokens d_model head max_len M" and h: "0 < head"
    and len: "length token_ids \<le> max_len"
    and ids: "list_all (\<lambda>t. 0 \<le> t \<and> t < int num_tokens) token_ids"
  shows "\<exists>r. EncoderOnly_residual M token_ids = Inr r \<and> shape r (length token_ids) d_model"
proof -
  from wf have we: "wf_tensor (eo_we M)" "cols (eo_we M) = d_model" "nrows (eo_we M) = num_tokens"
    and heads: "list_all (wf_attention d_model) (attention_heads (eo_multi_head_attention M))"
      "length (attention_heads (eo_multi_head_attention M)) = head"
    and fc: "wf_linear (head * d_model) d_model (mha_fc (eo_multi_head_attention M))"
    by (simp_all add: wf_encoder_only_def)
  from embedding_ok[OF we(1)] ids we(2,3) obtain w where
    w: "embedding (eo_we M) token_ids = Inr w" "shape w (length token_ids) d_model" by auto
  from PositionEncoding_forward_valid[OF wf_encoder_only_pe[OF wf] w(2) len] obtain p where
    p: "PositionEncoding_forward (eo_pe M) w = Inr p" "shape p (length token_ids) d_model" by blast
  have ne: "attention_heads (eo_multi_head_attention M) \<noteq> []" using heads(2) h by auto
  from MultiHeadAttention_forward_ok[OF heads(1) ne _ p(2)] fc heads(2) obtain sa where
    sa: "MultiHeadAttention_forward (eo_multi_head_attention M) p p p None = Inr sa"
      "shape sa (length token_ids) d_model" by auto
  have "tensor_add p sa = Inr \<lparr>cols = d_model, vals = map2 (map2 (+)) (vals p) (vals sa)\<rparr>"
    by (rule tensor_add_same[OF p(2) sa(2)])
  with shape_add_same[OF p(2) sa(2)] w p sa show ?thesis
    by (simp add: EncoderOnly_residual_def)
qed

text \<open>
  Claim C9. For a model as the constructor builds it (with \<open>d_model > 0\<close> and
  \<open>max_len > 0\<close>), the forward pass of the classifier raises on every token sequence
  whose length is not \<open>max_len\<close>. On a shorter sequence of valid tokens everything up
  to the residual connection succeeds, with a result of shape \<open>[L, d_model]\<close>, and it
  is the classification layer that rejects the flattened \<open>L * d_model\<close> values with a
  shape error. On a sequence of exactly \<open>max_len\<close> valid tokens the pass returns the
  two logits.
\<close>

theorem EncoderOnly_fixed_length:
  assumes wf: "wf_encoder_only num_tokens d_model head max_len M"
    and d: "0 < d_model" and ml: "0 < max_len"
  shows "(length token_ids \<noteq> max_len \<longrightarrow>
            (\<exists>e. EncoderOnlyTransformer_forward M token_ids = Inl e)) \<and>
         (length token_ids < max_len \<and> 0 < head \<and>
          list_all (\<lambda>t. 0 \<le> t \<and> t < int num_tokens) token_ids \<longrightarrow>
            (\<exists>r. EncoderOnly_residual M token_ids = Inr r \<and>
                 shape r (length token_ids) d_model \<and>
                 linear_forward1 (eo_cls M) (concat (vals r)) = Inl ShapeError) \<and>
            EncoderOnlyTransformer_forward M token_ids = Inl ShapeError) \<and>
         (length token_ids = max_len \<and> 0 < head \<and>
          list_all (\<lambda>t. 0 \<le> t \<and> t < int num_tokens) token_ids \<longrightarrow>
            (\<exists>y. EncoderOnlyTransformer_forward M token_ids = Inr y \<and> length y = 2))"
proof -
  from wf have cls: "cols (weight (eo_cls M)) = max_len * d_model"
    "nrows (weight (eo_cls M)) = 2" "length (bias (eo_cls M)) = 2"
    by (simp_all add: wf_encoder_only_def wf_linear_def)
  have cls_r: "linear_forward1 (eo_cls M) (concat (vals r)) =
      (if length token_ids = max_len then Inr (linear_row (eo_cls M) (concat (vals r)))
       else Inl ShapeError)"
    if "shape r (length token_ids) d_model" for r
    using shape_concat[OF that] cls(1) d by (simp add: linear_forward1_def)
  have a: "\<exists>e. EncoderOnlyTransformer_forward M token_ids = Inl e" if "length token_ids \<noteq> max_len"
  proof (cases "EncoderOnly_residual M token_ids")
    case (Inl e)
    then show ?thesis by (simp add: EncoderOnlyTransformer_forward_def)
  next
    case (Inr r)
    from cls_r[OF EncoderOnly_residual_Inr[OF wf ml Inr]] that Inr show ?thesis
      by (simp add: EncoderOnlyTransformer_forward_def)
  qed
  have b: "(\<exists>r. EncoderOnly_residual M token_ids = Inr r \<and>
                 shape r (length token_ids) d_model \<and>
                 linear_forward1 (eo_cls M) (concat (vals r)) = Inl ShapeError) \<and>
            EncoderOnlyTransformer_forward M token_ids = Inl ShapeError"
    if "length token_ids < max_len" "0 < head"
      "list_all (\<lambda>t. 0 \<le> t \<and> t < int num_tokens) token_ids"
  proof -
    from EncoderOnly_residual_ok[OF wf that(2) _ that(3)] that(1) obtain r where
      r: "EncoderOnly_residual M token_ids = Inr r" "shape r (length token_ids) d_model" by auto
    from cls_r[OF r(2)] that(1) r show ?thesis
      by (auto simp: EncoderOnlyTransformer_forward_def)
  qed
  have c: "\<exists>y. EncoderOnlyTransformer_forward M token_ids = Inr y \<and> length y = 2"
    if "length token_ids = max_len" "0 < head"
      "list_all (\<lambda>t. 0 \<le> t \<and> t < int num_tokens) token_ids"
  proof -
    from EncoderOnly_residual_ok[OF wf that(2) _ that(3)] that(1) obtain r where
      r: "EncoderOnly_residual M token_ids = Inr r" "shape r (length token_ids) d_model" by auto
    from cls_r[OF r(2)] that(1) r cls(2,3) show ?thesis
      by (simp add: EncoderOnlyTransformer_forward_def linear_row_def nrows_def)
  qed
  from a b c show ?thesis by blast
qed

lemma wf_ex_encoder_only: "wf_encoder_only 12 2 2 6 ex_encoder_only"
  by (simp add: wf_encoder_only_def ex_encoder_only_def wf_tensor_def nrows_def
      PositionEncoding_init_even wf_ex_attention wf_linear_def list_all_iff)

theorem EncoderOnly_fixed_length_witness:
  "wf_encoder_only 12 2 2 6 ex_encoder_only \<and> (0::nat) < 2 \<and> (0::nat) < 6 \<and>
   length [10, 8, 9 :: int] < 6 \<and> list_all (\<lambda>t. 0 \<le> t \<and> t < int 12) [10, 8, 9] \<and>
   EncoderOnlyTransformer_forward ex_encoder_only [10, 8, 9] = Inl ShapeError \<and>
   length [10, 8, 9, 11, 11, 11 :: int] = 6 \<and>
   list_all (\<lambda>t. 0 \<le> t \<and> t < int 12) [10, 8, 9, 11, 11, 11] \<and>
   (\<exists>y. EncoderOnlyTransformer_forward ex_encoder_only [10, 8, 9, 11, 11, 11] = Inr y \<and> length y = 2)"
proof -
  have h: "(0::nat) < 2" "(0::nat) < 6" by simp_all
  note t = EncoderOnly_fixed_length[OF wf_ex_encoder_only h]
  have a: "length [10, 8, 9 :: int] < 6 \<and> list_all (\<lambda>t. 0 \<le> t \<and> t < int 12) [10, 8, 9 :: int]"
    by simp
  have b: "length [10, 8, 9, 11, 11, 11 :: int] = 6 \<and>
    list_all (\<lambda>t. 0 \<le> t \<and> t < int 12) [10, 8, 9, 11, 11, 11 :: int]"
    by simp
  from t[of "[10, 8, 9]"] t[of "[10, 8, 9, 11, 11, 11]"] a b h wf_ex_encoder_only
  show ?thesis by blast
qed

section \<open>The decoder and the forward pass of the translator\<close>

lemma upt_5: "[0..<5] = [0, 1, 2, 3, 4]"
  by (simp add: upt_conv_Cons)

lemma upt_1: "[0..<1] = [0]"
  by simp

lemmas dec_eval = Decoder_forward_def Decoder_forward_spec_def embedding_def PositionEncoding_forward_def tensor_add_def
   bdim_def eval_defs upt_2 upt_5 pe_row_2

lemma ex_decoder_run: "Decoder_forward ex_decoder [0] ex_ctx ex_ctx = Inr \<lparr>cols = 2, vals = [[1, 2]]\<rparr>"
  by (simp add: dec_eval ex_decoder_def ex_ctx_def)

lemma ex_decoder_spec_run: "Decoder_forward_spec ex_decoder [0] ex_ctx ex_ctx
    = Inr \<lparr>cols = 2, vals = [[1, 2 * exp (2 / sqrt 2) / (1 + exp (2 / sqrt 2)) + 1]]\<rparr>"
  by (simp add: dec_eval ex_decoder_def ex_ctx_def)

text \<open>
  Claim C1, as amended. \<open>Decoder.forward\<close> returns a value exactly when each of its
  steps does, in this order: the embedding of the decoder tokens, the position encoding,
  the self-attention under the causal mask, the first residual sum, the attention over
  the encoder outputs without a mask, whose query input is the position-encoded
  embeddings (not the first residual sum), and the second residual sum, which adds the
  result of that attention to the first residual sum.
\<close>

theorem Decoder_forward_steps:
  "Decoder_forward D token_ids embeddings_for_k embeddings_for_v = Inr out \<longleftrightarrow>
   (\<exists>word_embeddings position_encoded self_attention_values residual_connection_values
      encoder_decoder_attention_values.
      embedding (dec_we D) token_ids = Inr word_embeddings \<and>
      PositionEncoding_forward (dec_pe D) word_embeddings = Inr position_encoded \<and>
      Attention_forward (dec_self_attention D) position_encoded position_encoded position_encoded
        (Some (causal_mask (length token_ids))) = Inr self_attention_values \<and>
      tensor_add position_encoded self_attention_values = Inr residual_connection_values \<and>
      Attention_forward (dec_encoder_decoder_attention D) position_encoded
        embeddings_for_k embeddings_for_v None = Inr encoder_decoder_attention_values \<and>
      tensor_add encoder_decoder_attention_values residual_connection_values = Inr out)"
  by (simp add: Decoder_forward_def bindE_eq_Inr)

theorem Decoder_forward_steps_witness:
  "Decoder_forward ex_decoder [0] ex_ctx ex_ctx = Inr \<lparr>cols = 2, vals = [[1, 2]]\<rparr> \<and>
   (\<exists>position_encoded residual_connection_values encoder_decoder_attention_values.
      Attention_forward (dec_encoder_decoder_attention ex_decoder) position_encoded
        ex_ctx ex_ctx None = Inr encoder_decoder_attention_values \<and>
      tensor_add encoder_decoder_attention_values residual_connection_values
        = Inr \<lparr>cols = 2, vals = [[1, 2]]\<rparr>)"
  using Decoder_forward_steps[of ex_decoder "[0]" ex_ctx ex_ctx "\<lparr>cols = 2, vals = [[1, 2]]\<rparr>"]
    ex_decoder_run
  by blast

text \<open>
  The claim as stated fails: on one decoder token and two encoder rows, the decoder of
  the notebook returns \<open>[[1, 2]]\<close>, and the decoder whose query is the first
  residual sum returns a different second entry.
\<close>

theorem Decoder_forward_query_counterexample:
  "Decoder_forward ex_decoder [0] ex_ctx ex_ctx = Inr \<lparr>cols = 2, vals = [[1, 2]]\<rparr> \<and>
   Decoder_forward_spec ex_decoder [0] ex_ctx ex_ctx
     = Inr \<lparr>cols = 2, vals = [[1, 2 * exp (2 / sqrt 2) / (1 + exp (2 / sqrt 2)) + 1]]\<rparr> \<and>
   2 * exp (2 / sqrt 2) / (1 + exp (2 / sqrt 2)) + 1 \<noteq> (2::real)"
proof -
  have "(0::real) < 2 / sqrt 2"
    by simp
  then have e: "1 < exp (2 / sqrt 2 :: real)"
    by (simp only: one_less_exp_iff)
  have "2 * exp (2 / sqrt 2) / (1 + exp (2 / sqrt 2)) \<noteq> (1::real)"
  proof
    assume "2 * exp (2 / sqrt 2) / (1 + exp (2 / sqrt 2)) = (1::real)"
    moreover have "0 < 1 + exp (2 / sqrt 2 :: real)"
      using e by linarith
    ultimately have "2 * exp (2 / sqrt 2) = 1 + exp (2 / sqrt 2 :: real)"
      by (simp add: field_simps)
    with e show False
      by linarith
  qed
  then have "2 * exp (2 / sqrt 2) / (1 + exp (2 / sqrt 2)) + 1 \<noteq> (2::real)"
    by linarith
  with ex_decoder_run ex_decoder_spec_run show ?thesis
    by blast
qed

lemma length_where_eq: "length (where_eq xs v) = count_list xs v"
proof -
  have "filter (\<lambda>x. x = v) xs = filter (\<lambda>x. x = v) (map (\<lambda>i. xs ! i) [0..<length xs])"
    by (simp add: map_nth)
  also have "\<dots> = map (\<lambda>i. xs ! i) (filter (\<lambda>i. xs ! i = v) [0..<length xs])"
    by (simp add: filter_map comp_def)
  finally have "length (filter (\<lambda>x. x = v) xs) = length (where_eq xs v)"
    by (simp add: where_eq_def)
  moreover have "count_list xs v = length (filter (\<lambda>x. x = v) xs)"
    by (induction xs) auto
  ultimately show ?thesis
    by simp
qed

lemma item_Inr: "item xs = Inr x \<longleftrightarrow> xs = [x]"
  by (auto simp: item_def split: list.splits)

lemma item_Inl: "length xs \<noteq> 1 \<Longrightarrow> item xs = Inl RuntimeError"
  by (cases xs) (auto simp: item_def split: list.splits)

lemma where_eq_single:
  assumes "where_eq xs v = [i]"
  shows "i < length xs \<and> xs ! i = v \<and> v \<notin> set (take i xs) \<and> v \<notin> set (drop (Suc i) xs)"
proof -
  have mem: "\<And>j. j \<in> set (where_eq xs v) \<longleftrightarrow> j < length xs \<and> xs ! j = v"
    by (auto simp: where_eq_def)
  have i: "i < length xs \<and> xs ! i = v"
    using mem[of i] assms by simp
  have uniq: "j = i" if "j < length xs" "xs ! j = v" for j
    using mem[of j] that assms by simp
  have "v \<notin> set (take i xs)"
  proof
    assume "v \<in> set (take i xs)"
    then obtain j where "j < length (take i xs)" "take i xs ! j = v"
      by (auto simp: in_set_conv_nth)
    then have "j < i" "j < length xs" "xs ! j = v" by auto
    with uniq[of j] show False by simp
  qed
  moreover have "v \<notin> set (drop (Suc i) xs)"
  proof
    assume "v \<in> set (drop (Suc i) xs)"
    then obtain j where "j < length (drop (Suc i) xs)" "drop (Suc i) xs ! j = v"
      by (auto simp: in_set_conv_nth)
    then have "Suc i + j < length xs" "xs ! (Suc i + j) = v" by auto
    with uniq[of "Suc i + j"] show False by simp
  qed
  ultimately show ?thesis using i by simp
qed

text \<open>
  Claim C10. \<open>Transformer.forward\<close> raises unless the \<open><SOS>\<close> identifier 0 occurs
  exactly once in the token sequence. When it occurs once, at position \<open>i\<close>, the
  tokens before \<open>i\<close> go to the encoder and the tokens from \<open>i\<close> on go to the
  decoder, whose output goes through the final linear layer.
\<close>

theorem Transformer_forward_SOS:
  "(count_list token_ids SOS \<noteq> 1 \<longrightarrow> Transformer_forward T token_ids = Inl RuntimeError) \<and>
   (count_list token_ids SOS = 1 \<longrightarrow>
      (\<exists>i<length token_ids. token_ids ! i = SOS \<and> SOS \<notin> set (take i token_ids) \<and>
         SOS \<notin> set (drop (Suc i) token_ids) \<and>
         Transformer_forward T token_ids =
           bindE (Encoder_forward (tr_encoder T) (take i token_ids)) (\<lambda>contextualised_embeddings.
           bindE (Decoder_forward (tr_decoder T) (drop i token_ids)
                    contextualised_embeddings contextualised_embeddings)
             (linear_forward (tr_fc T)))))"
proof (intro conjI impI)
  assume "count_list token_ids SOS \<noteq> 1"
  then have "item (where_eq token_ids SOS) = Inl RuntimeError"
    by (intro item_Inl) (simp add: length_where_eq)
  then show "Transformer_forward T token_ids = Inl RuntimeError"
    by (simp add: Transformer_forward_def)
next
  assume "count_list token_ids SOS = 1"
  then have "length (where_eq token_ids SOS) = 1"
    by (simp add: length_where_eq)
  then obtain i where i: "where_eq token_ids SOS = [i]"
    by (cases "where_eq token_ids SOS") auto
  then have "item (where_eq token_ids SOS) = Inr i"
    by (simp add: item_Inr)
  then have "Transformer_forward T token_ids =
           bindE (Encoder_forward (tr_encoder T) (take i token_ids)) (\<lambda>contextualised_embeddings.
           bindE (Decoder_forward (tr_decoder T) (drop i token_ids)
                    contextualised_embeddings contextualised_embeddings)
             (linear_forward (tr_fc T)))"
    by (simp add: Transformer_forward_def)
  with where_eq_single[OF i] show "\<exists>i<length token_ids. token_ids ! i = SOS \<and>
         SOS \<notin> set (take i token_ids) \<and> SOS \<notin> set (drop (Suc i) token_ids) \<and>
         Transformer_forward T token_ids =
           bindE (Encoder_forward (tr_encoder T) (take i token_ids)) (\<lambda>contextualised_embeddings.
           bindE (Decoder_forward (tr_decoder T) (drop i token_ids)
                    contextualised_embeddings contextualised_embeddings)
             (linear_forward (tr_fc T)))"
    by blast
qed

theorem Transformer_forward_SOS_witness:
  "count_list [1, 2, 5, 0, 1, 2] SOS = 1 \<and>
   Transformer_forward ex_transformer [1, 2, 5, 0, 1, 2] =
     bindE (Encoder_forward (tr_encoder ex_transformer) [1, 2, 5]) (\<lambda>contextualised_embeddings.
     bindE (Decoder_forward (tr_decoder ex_transformer) [0, 1, 2]
              contextualised_embeddings contextualised_embeddings)
       (linear_forward (tr_fc ex_transformer))) \<and>
   count_list [1, 2, 5] SOS \<noteq> 1 \<and>
   Transformer_forward ex_transformer [1, 2, 5] = Inl RuntimeError \<and>
   count_list [0, 1, 0] SOS \<noteq> 1 \<and>
   Transformer_forward ex_transformer [0, 1, 0] = Inl RuntimeError"
proof -
  have c1: "count_list [1, 2, 5, 0, 1, 2] SOS = 1"
    and c0: "count_list [1, 2, 5] SOS \<noteq> 1" and c2: "count_list [0, 1, 0] SOS \<noteq> 1"
    by (simp_all add: SOS_def)
  from Transformer_forward_SOS[of "[1, 2, 5, 0, 1, 2]" ex_transformer] c1
  obtain i where i: "i < length [1, 2, 5, 0, 1, 2 :: int]" "[1, 2, 5, 0, 1, 2] ! i = SOS"
    and f: "Transformer_forward ex_transformer [1, 2, 5, 0, 1, 2] =
     bindE (Encoder_forward (tr_encoder ex_transformer) (take i [1, 2, 5, 0, 1, 2])) (\<lambda>contextualised_embeddings.
     bindE (Decoder_forward (tr_decoder ex_transformer) (drop i [1, 2, 5, 0, 1, 2])
              contextualised_embeddings contextualised_embeddings)
       (linear_forward (tr_fc ex_transformer)))"
    by blast
  from i(1) have "i \<in> {0, 1, 2, 3, 4, 5}" by auto
  with i(2) have "i = 3" by (auto simp: SOS_def)
  with f have f3: "Transformer_forward ex_transformer [1, 2, 5, 0, 1, 2] =
     bindE (Encoder_forward (tr_encoder ex_transformer) [1, 2, 5]) (\<lambda>contextualised_embeddings.
     bindE (Decoder_forward (tr_decoder ex_transformer) [0, 1, 2]
              contextualised_embeddings contextualised_embeddings)
       (linear_forward (tr_fc ex_transformer)))"
    by (simp add: numeral_3_eq_3)
  from Transformer_forward_SOS[of "[1, 2, 5]" ex_transformer]
    Transformer_forward_SOS[of "[0, 1, 0]" ex_transformer] c0 c2 c1 f3
  show ?thesis by blast
qed

section \<open>Generation\<close>

lemma pe_init_shape:
  "PositionEncoding_init d_model max_len = Inr pe \<Longrightarrow> shape pe max_len d_model"
  using PositionEncoding_init_Inr[of d_model max_len pe] pe_table_shape[of d_model max_len]
  by simp

lemma embed_pe_ok:
  assumes "wf_tensor W" "nrows W = num_tokens" "cols W = d_model"
    "PositionEncoding_init d_model max_len = Inr pe"
    "valid_ids num_tokens token_ids" "length token_ids \<le> max_len"
  shows "\<exists>w p. embedding W token_ids = Inr w \<and> shape w (length token_ids) d_model \<and>
           PositionEncoding_forward pe w = Inr p \<and> shape p (length token_ids) d_model \<and>
           vals p = map2 (map2 (+)) (vals w) (take (length token_ids) (vals pe))"
proof -
  from embedding_ok[OF assms(1)] assms(2,3,5) obtain w where
    w: "embedding W token_ids = Inr w" "shape w (length token_ids) d_model"
    by (auto simp: valid_ids_def)
  let ?S = "pe\<lparr>vals := take (nrows w) (vals pe)\<rparr>"
  have S: "shape ?S (length token_ids) d_model"
    using pe_init_shape[OF assms(4)] w(2) assms(6)
    by (intro shapeI) (auto simp: nrows_def shape_dims shape_nth)
  have "PositionEncoding_forward pe w = Inr \<lparr>cols = d_model, vals = map2 (map2 (+)) (vals w) (vals ?S)\<rparr>"
    unfolding PositionEncoding_forward_def by (rule tensor_add_same[OF w(2) S])
  with shape_add_same[OF w(2) S] w show ?thesis
    by (auto simp: shape_dims)
qed

lemma Encoder_forward_ok:
  assumes "wf_encoder num_tokens d_model max_len E" "valid_ids num_tokens token_ids"
    "length token_ids \<le> max_len"
  shows "\<exists>c. Encoder_forward E token_ids = Inr c \<and> shape c (length token_ids) d_model"
proof -
  from assms(1) have we: "wf_tensor (enc_we E)" "nrows (enc_we E) = num_tokens"
      "cols (enc_we E) = d_model" "PositionEncoding_init d_model max_len = Inr (enc_pe E)"
    and att: "wf_attention d_model (enc_attention E)"
    by (simp_all add: wf_encoder_def)
  from embed_pe_ok[OF we assms(2,3)] obtain w p where
    w: "embedding (enc_we E) token_ids = Inr w"
    and p: "PositionEncoding_forward (enc_pe E) w = Inr p" "shape p (length token_ids) d_model"
    by blast
  from Attention_forward_ok[OF att p(2) p(2) p(2), of None] obtain sa where
    sa: "Attention_forward (enc_attention E) p p p None = Inr sa"
      "shape sa (length token_ids) d_model" by auto
  from tensor_add_same[OF p(2) sa(2)] shape_add_same[OF p(2) sa(2)] w p sa
  show ?thesis by (simp add: Encoder_forward_def)
qed

lemma Decoder_forward_ok:
  assumes "wf_decoder num_tokens d_model max_len D" "valid_ids num_tokens token_ids"
    "length token_ids \<le> max_len" "shape ctx n d_model"
  shows "\<exists>r. Decoder_forward D token_ids ctx ctx = Inr r \<and> shape r (length token_ids) d_model"
proof -
  from assms(1) have we: "wf_tensor (dec_we D)" "nrows (dec_we D) = num_tokens"
      "cols (dec_we D) = d_model" "PositionEncoding_init d_model max_len = Inr (dec_pe D)"
    and att: "wf_attention d_model (dec_self_attention D)"
      "wf_attention d_model (dec_encoder_decoder_attention D)"
    by (simp_all add: wf_decoder_def)
  from embed_pe_ok[OF we assms(2,3)] obtain w p where
    w: "embedding (dec_we D) token_ids = Inr w"
    and p: "PositionEncoding_forward (dec_pe D) w = Inr p" "shape p (length token_ids) d_model"
    by blast
  from Attention_forward_ok[OF att(1) p(2) p(2) p(2), of "Some (causal_mask (length token_ids))"]
    causal_mask_shape[of "length token_ids"]
  obtain sa where
    sa: "Attention_forward (dec_self_attention D) p p p (Some (causal_mask (length token_ids))) = Inr sa"
      "shape sa (length token_ids) d_model" by auto
  let ?res = "\<lparr>cols = d_model, vals = map2 (map2 (+)) (vals p) (vals sa)\<rparr>"
  have res: "tensor_add p sa = Inr ?res" "shape ?res (length token_ids) d_model"
    using tensor_add_same[OF p(2) sa(2)] shape_add_same[OF p(2) sa(2)] by simp_all
  from Attention_forward_ok[OF att(2) p(2) assms(4) assms(4), of None] obtain ca where
    ca: "Attention_forward (dec_encoder_decoder_attention D) p ctx ctx None = Inr ca"
      "shape ca (length token_ids) d_model" by auto
  from tensor_add_same[OF ca(2) res(2)] shape_add_same[OF ca(2) res(2)] w p sa res(1) ca
  show ?thesis by (simp add: Decoder_forward_def)
qed

lemma DecoderOnly_forward_ok:
  assumes "wf_decoder_only num_tokens d_model max_len M" "valid_ids num_tokens token_ids"
    "length token_ids \<le> max_len"
  shows "\<exists>out. DecoderOnlyTransformer_forward M token_ids = Inr out \<and>
           shape out (length token_ids) num_tokens"
proof -
  from assms(1) have we: "wf_tensor (do_we M)" "nrows (do_we M) = num_tokens"
      "cols (do_we M) = d_model" "PositionEncoding_init d_model max_len = Inr (do_pe M)"
    and att: "wf_attention d_model (do_attention M)"
    and fc: "wf_linear d_model num_tokens (do_fc M)"
    by (simp_all add: wf_decoder_only_def)
  from embed_pe_ok[OF we assms(2,3)] obtain w p where
    w: "embedding (do_we M) token_ids = Inr w"
    and p: "PositionEncoding_forward (do_pe M) w = Inr p" "shape p (length token_ids) d_model"
    by blast
  from Attention_forward_ok[OF att p(2) p(2) p(2), of "Some (causal_mask (length token_ids))"]
    causal_mask_shape[of "length token_ids"]
  obtain sa where
    sa: "Attention_forward_dec (do_attention M) p p p (Some (causal_mask (length token_ids))) = Inr sa"
      "shape sa (length token_ids) d_model" by (auto simp: Attention_forward_dec_Some)
  let ?res = "\<lparr>cols = d_model, vals = map2 (map2 (+)) (vals p) (vals sa)\<rparr>"
  have res: "tensor_add p sa = Inr ?res" "shape ?res (length token_ids) d_model"
    using tensor_add_same[OF p(2) sa(2)] shape_add_same[OF p(2) sa(2)] by simp_all
  from linear_forward_ok[OF res(2) fc] obtain out where
    "linear_forward (do_fc M) ?res = Inr out" "shape out (length token_ids) num_tokens" by blast
  with w p sa res(1) show ?thesis by (simp add: DecoderOnlyTransformer_forward_def)
qed

lemma argmax_from_range: "best < i \<Longrightarrow> argmax_from xs i best m < i + length xs"
  by (induction xs i best m rule: argmax_from.induct) auto

lemma argmax_ok: "xs \<noteq> [] \<Longrightarrow> \<exists>p. argmax xs = Inr p \<and> 0 \<le> p \<and> p < int (length xs)"
proof (cases xs)
  case Nil
  assume "xs \<noteq> []"
  with Nil show ?thesis by simp
next
  case (Cons x r)
  have "argmax_from r 1 0 x < 1 + length r"
    by (rule argmax_from_range) simp
  with Cons show ?thesis by (simp add: argmax_def)
qed

lemma argmax_Inr: "argmax xs = Inr p \<Longrightarrow> 0 \<le> p \<and> p < int (length xs)"
  using argmax_ok[of xs] by (cases xs) (auto simp: argmax_def)

lemma predict_last_ok:
  assumes "wf_decoder_only num_tokens d_model max_len M" "valid_ids num_tokens token_ids"
    "length token_ids \<le> max_len" "token_ids \<noteq> []" "0 < num_tokens"
  shows "\<exists>p. predict_last M token_ids = Inr p \<and> 0 \<le> p \<and> p < int num_tokens"
proof -
  from DecoderOnly_forward_ok[OF assms(1-3)] obtain out where
    out: "DecoderOnlyTransformer_forward M token_ids = Inr out"
      "shape out (length token_ids) num_tokens" by blast
  have "length (vals out) = length token_ids" using shape_dims[OF out(2)] by simp
  then have ne: "vals out \<noteq> []" using assms(4) by auto
  then have "last (vals out) \<in> set (vals out)" by simp
  then have len: "length (last (vals out)) = num_tokens" using out(2) by (rule shape_set[rotated])
  then have "last (vals out) \<noteq> []" using assms(5) by auto
  from argmax_ok[OF this] len out(1) ne show ?thesis
    by (simp add: predict_last_def)
qed

lemma sum_list_zero: "(\<forall>t\<in>set ts. t = 0) \<Longrightarrow> sum_list ts = (0::real)"
  by (induction ts) auto

lemma dot_zero_right: "(\<forall>y\<in>set ys. y = 0) \<Longrightarrow> dot xs ys = 0"
proof -
  assume z: "\<forall>y\<in>set ys. y = 0"
  have "\<forall>t\<in>set (map2 (*) xs ys). t = 0"
    using z by (auto simp: set_zip)
  then have "sum_list (map2 (*) xs ys) = 0"
    by (rule sum_list_zero)
  then show ?thesis by (simp add: dot_def)
qed

lemma linear_nobias_zero:
  assumes "\<forall>r\<in>set (vals W). \<forall>x\<in>set r. x = 0" "linear_nobias W v = Inr pv"
  shows "\<forall>r\<in>set (vals pv). \<forall>x\<in>set r. x = 0"
  using assms by (auto simp: linear_nobias_def dot_zero_right split: if_splits)

lemma matmul_zero:
  assumes "\<forall>r\<in>set (vals b). \<forall>x\<in>set r. x = 0" "wf_tensor b" "matmul a b = Inr out"
  shows "\<forall>r\<in>set (vals out). \<forall>x\<in>set r. x = 0"
proof -
  have col: "\<forall>y\<in>set (map (\<lambda>br. br ! j) (vals b)). y = 0" if "j < cols b" for j
  proof
    fix y assume "y \<in> set (map (\<lambda>br. br ! j) (vals b))"
    then obtain br where br: "br \<in> set (vals b)" "y = br ! j" by auto
    then have "length br = cols b" using assms(2) by (auto simp: wf_tensor_def list_all_iff)
    then have "br ! j \<in> set br" using that by simp
    with assms(1) br show "y = 0" by auto
  qed
  from assms(3) have "vals out = map (\<lambda>r. map (\<lambda>j. dot r (map (\<lambda>br. br ! j) (vals b))) [0..<cols b]) (vals a)"
    by (auto simp: matmul_def split: if_splits)
  then show ?thesis using col by (auto simp: dot_zero_right)
qed

lemma Attention_forward_zero:
  assumes "\<forall>r\<in>set (vals (W_v a)). \<forall>x\<in>set r. x = 0" "Attention_forward a q k v m = Inr out"
  shows "\<forall>r\<in>set (vals out). \<forall>x\<in>set r. x = 0"
proof -
  from assms(2) obtain p pv where p: "attention_percents a q k v m = Inr (p, pv)"
    and mm: "matmul p pv = Inr out"
    by (auto simp: Attention_forward_def bindE_eq_Inr)
  from p have pv: "linear_nobias (W_v a) v = Inr pv"
    by (auto simp: attention_percents_def scaled_sims_def bindE_eq_Inr)
  then have wf: "wf_tensor pv"
    by (auto simp: linear_nobias_def wf_tensor_def list_all_iff nrows_def split: if_splits)
  from matmul_zero[OF linear_nobias_zero[OF assms(1) pv] wf mm] show ?thesis .
qed

lemma add_zero_rows:
  assumes "shape (p :: real tensor) n d" "shape z n d" "\<forall>r\<in>set (vals z). \<forall>x\<in>set r. x = 0"
  shows "map2 (map2 (+)) (vals p) (vals z) = vals p"
proof (rule nth_equalityI)
  show "length (map2 (map2 (+)) (vals p) (vals z)) = length (vals p)"
    using assms by (simp add: shape_dims)
next
  fix i assume "i < length (map2 (map2 (+)) (vals p) (vals z))"
  then have i: "i < n" using assms by (simp add: shape_dims)
  have lp: "length (vals p ! i) = d" and lz: "length (vals z ! i) = d"
    using shape_nth[OF assms(1) i] shape_nth[OF assms(2) i] by simp_all
  have zi: "vals z ! i \<in> set (vals z)" using i assms(2) by (simp add: shape_dims)
  have "map2 (+) (vals p ! i) (vals z ! i) = vals p ! i"
  proof (rule nth_equalityI)
    show "length (map2 (+) (vals p ! i) (vals z ! i)) = length (vals p ! i)"
      using lp lz by simp
  next
    fix j assume "j < length (map2 (+) (vals p ! i) (vals z ! i))"
    then have j: "j < d" using lp lz by simp
    then have "vals z ! i ! j \<in> set (vals z ! i)" using lz by simp
    then have "vals z ! i ! j = 0" using assms(3) zi by blast
    then show "map2 (+) (vals p ! i) (vals z ! i) ! j = vals p ! i ! j"
      using j lp lz by simp
  qed
  then show "map2 (map2 (+)) (vals p) (vals z) ! i = vals p ! i"
    using i assms by (simp add: shape_dims)
qed

lemma predict_last_zero_value:
  assumes wf: "wf_decoder_only num_tokens d_model max_len M"
    and z: "\<forall>r\<in>set (vals (W_v (do_attention M))). \<forall>x\<in>set r. x = 0"
    and ids: "valid_ids num_tokens token_ids" "length token_ids \<le> max_len" "token_ids \<noteq> []"
  shows "predict_last M token_ids =
     argmax (linear_row (do_fc M)
       (map2 (+) (vals (do_we M) ! nat (last token_ids)) (pe_row d_model (length token_ids - 1))))"
proof -
  let ?L = "length token_ids"
  from wf have we: "wf_tensor (do_we M)" "nrows (do_we M) = num_tokens"
      "cols (do_we M) = d_model" "PositionEncoding_init d_model max_len = Inr (do_pe M)"
    and att: "wf_attention d_model (do_attention M)"
    and fc: "wf_linear d_model num_tokens (do_fc M)"
    by (simp_all add: wf_decoder_only_def)
  from embed_pe_ok[OF we ids(1,2)] obtain w p where
    w: "embedding (do_we M) token_ids = Inr w"
    and p: "PositionEncoding_forward (do_pe M) w = Inr p" "shape p ?L d_model"
    and vp: "vals p = map2 (map2 (+)) (vals w) (take ?L (vals (do_pe M)))"
    by blast
  from w have vw: "vals w = map (\<lambda>t. vals (do_we M) ! nat t) token_ids"
    by (auto simp: embedding_def split: if_splits)
  from PositionEncoding_init_Inr[OF we(4)] have vpe: "vals (do_pe M) = map (pe_row d_model) [0..<max_len]"
    by simp
  from Attention_forward_ok[OF att p(2) p(2) p(2), of "Some (causal_mask ?L)"]
    causal_mask_shape[of ?L]
  obtain sa where
    sa: "Attention_forward (do_attention M) p p p (Some (causal_mask ?L)) = Inr sa"
      "shape sa ?L d_model" by auto
  from Attention_forward_zero[OF z sa(1)] have zs: "\<forall>r\<in>set (vals sa). \<forall>x\<in>set r. x = 0" .
  have res: "tensor_add p sa = Inr \<lparr>cols = d_model, vals = vals p\<rparr>"
    using tensor_add_same[OF p(2) sa(2)] add_zero_rows[OF p(2) sa(2) zs] by simp
  have "cols (weight (do_fc M)) = d_model" using fc by (simp add: wf_linear_def)
  then have out: "DecoderOnlyTransformer_forward M token_ids =
      Inr \<lparr>cols = nrows (weight (do_fc M)), vals = map (linear_row (do_fc M)) (vals p)\<rparr>"
    using w p(1) sa(1) res
    by (simp add: DecoderOnlyTransformer_forward_def Attention_forward_dec_Some linear_forward_def)
  have lp: "length (vals p) = ?L" using shape_dims[OF p(2)] by simp
  then have ne: "vals p \<noteq> []" using ids(3) by auto
  have L: "?L - 1 < ?L" using ids(3) by (cases token_ids) auto
  have "last (vals p) = vals p ! (?L - 1)"
    using ne lp by (simp add: last_conv_nth)
  also have "\<dots> = map2 (+) (vals w ! (?L - 1)) (pe_row d_model (?L - 1))"
    using L ids(2) by (simp add: vp vw vpe)
  also have "vals w ! (?L - 1) = vals (do_we M) ! nat (last token_ids)"
    using L ids(3) by (simp add: vw last_conv_nth)
  finally have "last (vals p) =
      map2 (+) (vals (do_we M) ! nat (last token_ids)) (pe_row d_model (?L - 1))" .
  then show ?thesis
    using out ne by (simp add: predict_last_def last_map)
qed

lemma wf_ex_decoder_only: "wf_decoder_only 5 2 6 ex_decoder_only"
  by (simp add: wf_decoder_only_def ex_decoder_only_def ex_attention_zero_def wf_attention_def
      wf_tensor_def nrows_def PositionEncoding_init_even wf_linear_def)

lemma wf_ex_decoder_only_const: "wf_decoder_only 5 2 6 ex_decoder_only_const"
  by (simp add: wf_decoder_only_def ex_decoder_only_const_def ex_attention_zero_def wf_attention_def
      wf_tensor_def nrows_def PositionEncoding_init_even wf_linear_def)

lemma ex_predict:
  assumes "valid_ids 5 token_ids" "length token_ids \<le> 6" "token_ids \<noteq> []"
  shows "predict_last ex_decoder_only token_ids =
     argmax (linear_row (do_fc ex_decoder_only)
       (map2 (+) (vals (do_we ex_decoder_only) ! nat (last token_ids)) (pe_row 2 (length token_ids - 1))))"
  by (rule predict_last_zero_value[OF wf_ex_decoder_only _ assms])
     (simp add: ex_decoder_only_def ex_attention_zero_def)

lemma ex_predict_const:
  assumes "valid_ids 5 token_ids" "length token_ids \<le> 6" "token_ids \<noteq> []"
  shows "predict_last ex_decoder_only_const token_ids = Inr 3"
proof -
  have "predict_last ex_decoder_only_const token_ids =
     argmax (linear_row (do_fc ex_decoder_only_const)
       (map2 (+) (vals (do_we ex_decoder_only_const) ! nat (last token_ids)) (pe_row 2 (length token_ids - 1))))"
    by (rule predict_last_zero_value[OF wf_ex_decoder_only_const _ assms])
       (simp add: ex_decoder_only_const_def ex_attention_zero_def)
  also have "\<dots> = Inr 3"
    by (simp add: ex_decoder_only_const_def linear_row_def dot_zero_right argmax_def)
  finally show ?thesis .
qed

lemma argmax_3: "0 < a \<Longrightarrow> b \<le> a \<Longrightarrow> argmax [0, 0, 0, a, b] = Inr 3"
  by (simp add: argmax_def)

lemma argmax_4: "a \<le> 0 \<Longrightarrow> 0 < b \<Longrightarrow> argmax [0, 0, 0, a, b] = Inr 4"
  by (simp add: argmax_def)

lemma ex_predict_1: "predict_last ex_decoder_only [0, 1, 2, 4] = Inr 3"
proof -
  have "- 1 \<le> sin (3::real)" "cos (3::real) \<le> 1"
    by simp_all
  then have s: "0 < 10 + sin (3::real) - 5" "cos (3::real) - 5 \<le> 10 + sin 3 - 5"
    by linarith+
  have "predict_last ex_decoder_only [0, 1, 2, 4] = argmax [0, 0, 0, 10 + sin 3 - 5, cos 3 - 5]"
    by (simp add: ex_predict valid_ids_def)
       (simp add: ex_decoder_only_def linear_row_def dot_def pe_row_2)
  also have "\<dots> = Inr 3"
    using s by (rule argmax_3)
  finally show ?thesis .
qed

lemma ex_predict_2: "predict_last ex_decoder_only [0, 1, 2, 4, 3] = Inr 4"
proof -
  have "sin (4::real) \<le> 1" "- 1 \<le> cos (4::real)"
    by simp_all
  then have s: "sin (4::real) - 5 \<le> 0" "0 < 10 + cos (4::real) - 5"
    by linarith+
  have "predict_last ex_decoder_only [0, 1, 2, 4, 3] = argmax [0, 0, 0, sin 4 - 5, 10 + cos 4 - 5]"
    by (simp add: ex_predict valid_ids_def)
       (simp add: ex_decoder_only_def linear_row_def dot_def pe_row_2)
  also have "\<dots> = Inr 4"
    using s by (rule argmax_4)
  finally show ?thesis .
qed

lemma two_Suc: "(2::nat) = Suc (Suc 0)"
  by simp

text \<open>
  Claim C4. The generation cell before training prepends each new token to the emitted
  list. On \<open>ex_decoder_only\<close> and the prompt of the notebook the tokens are produced
  in the order 3 (\<open>awesome\<close>), 4 (\<open><EOS>\<close>); the cell before training emits
  \<open>[4, 3]\<close>, the cell after training emits \<open>[3, 4]\<close>.
\<close>

theorem generation_order_pre_cell:
  "generate_pre ex_decoder_only 6 [0, 1, 2, 4] = Inr ([0, 1, 2, 4, 3], 4, [4, 3]) \<and>
   generate_post ex_decoder_only 6 [0, 1, 2, 4] = Inr ([0, 1, 2, 4, 3], 4, [3, 4])"
  by (simp add: generate_pre_def generate_post_def ex_predict_1 ex_predict_2 two_Suc EOS_do_def)

lemma gen_loop_post_Inr:
  "gen_loop_post M n mi pid pids = Inr (mi', pid', pids') \<Longrightarrow>
     \<exists>ps. mi' @ [pid'] = mi @ pid # ps \<and> pids' = pids @ ps \<and> length ps \<le> n"
proof (induction n arbitrary: mi pid pids)
  case 0
  then show ?case by simp
next
  case (Suc n)
  show ?case
  proof (cases "pid = EOS_do")
    case True
    with Suc.prems show ?thesis by simp
  next
    case False
    with Suc.prems obtain p where p: "predict_last M (mi @ [pid]) = Inr p"
      and rec: "gen_loop_post M n (mi @ [pid]) p (pids @ [p]) = Inr (mi', pid', pids')"
      by (auto split: sum.splits)
    from Suc.IH[OF rec] obtain ps where
      "mi' @ [pid'] = (mi @ [pid]) @ p # ps" "pids' = (pids @ [p]) @ ps" "length ps \<le> n"
      by blast
    then have "mi' @ [pid'] = mi @ pid # (p # ps) \<and> pids' = pids @ (p # ps) \<and> length (p # ps) \<le> Suc n"
      by simp
    then show ?thesis by blast
  qed
qed

lemma gen_loop_pre_Inr:
  "gen_loop_pre M n mi pid pids = Inr (mi', pid', pids') \<Longrightarrow>
     \<exists>ps. mi' @ [pid'] = mi @ pid # ps \<and> pids' = rev ps @ pids \<and> length ps \<le> n"
proof (induction n arbitrary: mi pid pids)
  case 0
  then show ?case by simp
next
  case (Suc n)
  show ?case
  proof (cases "pid = EOS_do")
    case True
    with Suc.prems show ?thesis by simp
  next
    case False
    with Suc.prems obtain p where p: "predict_last M (mi @ [pid]) = Inr p"
      and rec: "gen_loop_pre M n (mi @ [pid]) p (p # pids) = Inr (mi', pid', pids')"
      by (auto split: sum.splits)
    from Suc.IH[OF rec] obtain ps where
      "mi' @ [pid'] = (mi @ [pid]) @ p # ps" "pids' = rev ps @ p # pids" "length ps \<le> n"
      by blast
    then have "mi' @ [pid'] = mi @ pid # (p # ps) \<and> pids' = rev (p # ps) @ pids \<and> length (p # ps) \<le> Suc n"
      by simp
    then show ?thesis by blast
  qed
qed

lemma valid_ids_snoc: "valid_ids n xs \<Longrightarrow> 0 \<le> p \<Longrightarrow> p < int n \<Longrightarrow> valid_ids n (xs @ [p])"
  by (simp add: valid_ids_def)

lemma gen_loop_post_ok:
  assumes "wf_decoder_only num_tokens d_model ml M" "0 < num_tokens"
  shows "valid_ids num_tokens mi \<Longrightarrow> 0 \<le> pid \<Longrightarrow> pid < int num_tokens \<Longrightarrow>
     length mi + n \<le> ml \<Longrightarrow> \<exists>r. gen_loop_post M n mi pid pids = Inr r"
proof (induction n arbitrary: mi pid pids)
  case 0
  then show ?case by simp
next
  case (Suc n)
  have v: "valid_ids num_tokens (mi @ [pid])"
    using Suc.prems by (simp add: valid_ids_snoc)
  have l: "length (mi @ [pid]) \<le> ml" using Suc.prems by simp
  from predict_last_ok[OF assms(1) v l _ assms(2)] obtain p where
    p: "predict_last M (mi @ [pid]) = Inr p" "0 \<le> p" "p < int num_tokens" by auto
  from Suc.IH[OF v p(2,3), of "pids @ [p]"] Suc.prems
  obtain r where "gen_loop_post M n (mi @ [pid]) p (pids @ [p]) = Inr r" by auto
  with p(1) show ?case by (cases r) auto
qed

lemma gen_loop_pre_ok:
  assumes "wf_decoder_only num_tokens d_model ml M" "0 < num_tokens"
  shows "valid_ids num_tokens mi \<Longrightarrow> 0 \<le> pid \<Longrightarrow> pid < int num_tokens \<Longrightarrow>
     length mi + n \<le> ml \<Longrightarrow> \<exists>r. gen_loop_pre M n mi pid pids = Inr r"
proof (induction n arbitrary: mi pid pids)
  case 0
  then show ?case by simp
next
  case (Suc n)
  have v: "valid_ids num_tokens (mi @ [pid])"
    using Suc.prems by (simp add: valid_ids_snoc)
  have l: "length (mi @ [pid]) \<le> ml" using Suc.prems by simp
  from predict_last_ok[OF assms(1) v l _ assms(2)] obtain p where
    p: "predict_last M (mi @ [pid]) = Inr p" "0 \<le> p" "p < int num_tokens" by auto
  from Suc.IH[OF v p(2,3), of "p # pids"] Suc.prems
  obtain r where "gen_loop_pre M n (mi @ [pid]) p (p # pids) = Inr r" by auto
  with p(1) show ?case by (cases r) auto
qed

lemma generate_post_Inr:
  assumes "generate_post M max_len prompt = Inr (mi, pid, pids)"
  shows "prompt @ pids = mi @ [pid] \<and> length mi \<le> length prompt + (max_len - length prompt)"
proof -
  from assms obtain p0 where
    "gen_loop_post M (max_len - length prompt) prompt p0 [p0] = Inr (mi, pid, pids)"
    by (auto simp: generate_post_def bindE_eq_Inr)
  from gen_loop_post_Inr[OF this] obtain ps where
    ps: "mi @ [pid] = prompt @ p0 # ps" "pids = [p0] @ ps" "length ps \<le> max_len - length prompt"
    by blast
  from ps(1) have "length (mi @ [pid]) = length (prompt @ p0 # ps)" by simp
  then have "length mi = length prompt + length ps" by simp
  with ps show ?thesis by simp
qed

lemma generate_pre_Inr:
  assumes "generate_pre M max_len prompt = Inr (mi, pid, pids)"
  shows "prompt @ rev pids = mi @ [pid] \<and> length mi \<le> length prompt + (max_len - length prompt)"
proof -
  from assms obtain p0 where
    "gen_loop_pre M (max_len - length prompt) prompt p0 [p0] = Inr (mi, pid, pids)"
    by (auto simp: generate_pre_def bindE_eq_Inr)
  from gen_loop_pre_Inr[OF this] obtain ps where
    ps: "mi @ [pid] = prompt @ p0 # ps" "pids = rev ps @ [p0]" "length ps \<le> max_len - length prompt"
    by blast
  from ps(1) have "length (mi @ [pid]) = length (prompt @ p0 # ps)" by simp
  then have "length mi = length prompt + length ps" by simp
  with ps show ?thesis by simp
qed

lemma generate_cells_ok:
  assumes "wf_decoder_only num_tokens d_model ml M" "0 < num_tokens" "max_len \<le> ml"
    "valid_ids num_tokens prompt" "prompt \<noteq> []" "length prompt \<le> max_len"
  shows "(\<exists>r. generate_pre M max_len prompt = Inr r) \<and> (\<exists>r. generate_post M max_len prompt = Inr r)"
proof -
  have l: "length prompt \<le> ml" using assms(3,6) by simp
  from predict_last_ok[OF assms(1,4) l assms(5,2)] obtain p where
    p: "predict_last M prompt = Inr p" "0 \<le> p" "p < int num_tokens" by blast
  have n: "length prompt + (max_len - length prompt) \<le> ml" using assms(3,6) by simp
  from gen_loop_pre_ok[OF assms(1,2,4) p(2,3) n, of "[p]"]
    gen_loop_post_ok[OF assms(1,2,4) p(2,3) n, of "[p]"] p(1)
  show ?thesis by (simp add: generate_pre_def generate_post_def)
qed

lemma generate_loop_Inr:
  "generate_loop T ctx n target pid = Inr out \<Longrightarrow>
     length out \<le> length target + n \<and> take (length target) out = target"
proof (induction n arbitrary: target pid)
  case 0
  then show ?case by simp
next
  case (Suc n)
  show ?case
  proof (cases "pid = EOS")
    case True
    with Suc.prems show ?thesis by auto
  next
    case False
    with Suc.prems obtain p where
      rec: "generate_loop T ctx n (target @ [pid]) p = Inr out"
      by (auto split: sum.splits)
    from Suc.IH[OF rec] have a: "length out \<le> length target + Suc n"
      and b: "take (Suc (length target)) out = target @ [pid]" by simp_all
    have "take (length target) out = take (length target) (take (Suc (length target)) out)"
      by simp
    also have "\<dots> = target" unfolding b by simp
    finally show ?thesis using a by simp
  qed
qed

lemma generate_Inr:
  assumes "generate T src = Inr out"
  shows "length out \<le> max 1 (tr_max_len T) \<and> take 1 out = [SOS]"
proof -
  from assms obtain ctx p where "generate_loop T ctx (tr_max_len T - 1) [SOS] p = Inr out"
    by (auto simp: generate_def bindE_eq_Inr)
  from generate_loop_Inr[OF this] show ?thesis by auto
qed

lemma predict_row_ok:
  assumes "wf_transformer num_tokens d_model ml T" "0 < num_tokens" "shape r (Suc k) d_model"
  shows "\<exists>out p. linear_forward (tr_fc T) (r\<lparr>vals := drop (nrows r - 1) (vals r)\<rparr>) = Inr out \<and>
           argmax (concat (vals out)) = Inr p \<and> 0 \<le> p \<and> p < int num_tokens"
proof -
  from assms(1) have fc: "wf_linear d_model num_tokens (tr_fc T)"
    by (simp add: wf_transformer_def)
  have "shape (r\<lparr>vals := drop (nrows r - 1) (vals r)\<rparr>) 1 d_model"
    using assms(3) by (intro shapeI) (auto simp: nrows_def shape_dims shape_nth)
  from linear_forward_ok[OF this fc] obtain out where
    out: "linear_forward (tr_fc T) (r\<lparr>vals := drop (nrows r - 1) (vals r)\<rparr>) = Inr out"
      "shape out 1 num_tokens" by blast
  have "length (concat (vals out)) = num_tokens" using shape_concat[OF out(2)] by simp
  with argmax_ok[of "concat (vals out)"] assms(2) out(1) show ?thesis by auto
qed

lemma generate_loop_ok:
  assumes "wf_transformer num_tokens d_model ml T" "0 < num_tokens" "shape ctx k d_model"
  shows "valid_ids num_tokens target \<Longrightarrow> 0 \<le> pid \<Longrightarrow> pid < int num_tokens \<Longrightarrow>
     length target + n \<le> ml \<Longrightarrow> \<exists>out. generate_loop T ctx n target pid = Inr out"
proof (induction n arbitrary: target pid)
  case 0
  then show ?case by simp
next
  case (Suc n)
  from assms(1) have dec: "wf_decoder num_tokens d_model ml (tr_decoder T)"
    by (simp add: wf_transformer_def)
  have v: "valid_ids num_tokens (target @ [pid])"
    using Suc.prems by (simp add: valid_ids_snoc)
  have l: "length (target @ [pid]) \<le> ml" using Suc.prems by simp
  from Decoder_forward_ok[OF dec v l assms(3)] obtain r where
    r: "Decoder_forward (tr_decoder T) (target @ [pid]) ctx ctx = Inr r"
      "shape r (Suc (length target)) d_model" by auto
  from predict_row_ok[OF assms(1,2) r(2)] obtain out p where
    o: "linear_forward (tr_fc T) (r\<lparr>vals := drop (nrows r - 1) (vals r)\<rparr>) = Inr out"
      "argmax (concat (vals out)) = Inr p" "0 \<le> p" "p < int num_tokens" by blast
  from Suc.IH[OF v o(3,4)] Suc.prems obtain res where
    "generate_loop T ctx n (target @ [pid]) p = Inr res" by auto
  with r(1) o(1,2) show ?case by simp
qed

lemma generate_ok:
  assumes "wf_transformer num_tokens d_model ml T" "0 < num_tokens" "0 < ml"
    "valid_ids num_tokens src" "length src \<le> ml"
  shows "\<exists>out. generate T src = Inr out"
proof -
  from assms(1) have enc: "wf_encoder num_tokens d_model ml (tr_encoder T)"
    and dec: "wf_decoder num_tokens d_model ml (tr_decoder T)"
    and ml: "tr_max_len T = ml"
    by (simp_all add: wf_transformer_def)
  from Encoder_forward_ok[OF enc assms(4,5)] obtain ctx where
    ctx: "Encoder_forward (tr_encoder T) src = Inr ctx" "shape ctx (length src) d_model" by blast
  have v: "valid_ids num_tokens [SOS]" using assms(2) by (simp add: valid_ids_def SOS_def)
  have l: "length [SOS] \<le> ml" using assms(3) by simp
  from Decoder_forward_ok[OF dec v l ctx(2)] obtain r where
    r: "Decoder_forward (tr_decoder T) [SOS] ctx ctx = Inr r" "shape r (Suc 0) d_model" by auto
  from predict_row_ok[OF assms(1,2) r(2)] obtain out p where
    o: "linear_forward (tr_fc T) (r\<lparr>vals := drop (nrows r - 1) (vals r)\<rparr>) = Inr out"
      "argmax (concat (vals out)) = Inr p" "0 \<le> p" "p < int num_tokens" by blast
  have "r\<lparr>vals := drop (nrows r - 1) (vals r)\<rparr> = r"
    using r(2) by (simp add: shape_dims)
  with o(1) have o1: "linear_forward (tr_fc T) r = Inr out" by simp
  have n: "length [SOS] + (ml - 1) \<le> ml" using assms(3) by simp
  from generate_loop_ok[OF assms(1,2) ctx(2) v o(3,4) n] obtain res where
    "generate_loop T ctx (ml - 1) [SOS] p = Inr res" by blast
  with ctx(1) r(1) o1 o(2) ml show ?thesis by (simp add: generate_def)
qed

lemma wf_ex_decoder: "wf_decoder 6 2 5 ex_decoder"
  by (simp add: wf_decoder_def ex_decoder_def wf_attention_def wf_tensor_def nrows_def
      PositionEncoding_init_even)

lemma wf_ex_transformer: "wf_transformer 6 2 5 ex_transformer"
  by (simp add: wf_transformer_def wf_encoder_def ex_transformer_def wf_ex_decoder wf_ex_attention
      wf_tensor_def nrows_def PositionEncoding_init_even wf_linear_def list_all_iff)

text \<open>
  Claim C8, as amended. The loops are bounded \<open>for\<close> loops: the three generation
  procedures always end, and on a model as the constructor builds it, with a non-empty
  prompt of valid tokens of length at most \<open>max_len\<close>, they end without an error.
  The sequence given to the model (\<open>model_input\<close>, \<open>target_token_ids\<close>) never has
  more than \<open>max_len\<close> tokens, whether or not \<open><EOS>\<close> is produced. In the two
  cells of the decoder-only notebook the last prediction is emitted without being
  appended to \<open>model_input\<close>: the prompt and the emitted tokens together have one
  token more than \<open>model_input\<close>, so up to \<open>max_len + 1\<close>.
\<close>

theorem generation_terminates_bounded:
  assumes "length prompt \<le> max_len"
  shows "(\<forall>mi pid pids. generate_pre M max_len prompt = Inr (mi, pid, pids) \<longrightarrow>
            length mi \<le> max_len \<and> length prompt + length pids = length mi + 1) \<and>
         (\<forall>mi pid pids. generate_post M max_len prompt = Inr (mi, pid, pids) \<longrightarrow>
            length mi \<le> max_len \<and> length prompt + length pids = length mi + 1) \<and>
         (\<forall>out. generate T src = Inr out \<longrightarrow> length out \<le> max 1 (tr_max_len T)) \<and>
         (wf_decoder_only num_tokens d_model ml M \<and> 0 < num_tokens \<and> max_len \<le> ml \<and>
          valid_ids num_tokens prompt \<and> prompt \<noteq> [] \<longrightarrow>
            (\<exists>r. generate_pre M max_len prompt = Inr r) \<and>
            (\<exists>r. generate_post M max_len prompt = Inr r)) \<and>
         (wf_transformer num_tokens d_model (tr_max_len T) T \<and> 0 < num_tokens \<and>
          0 < tr_max_len T \<and> valid_ids num_tokens src \<and> length src \<le> tr_max_len T \<longrightarrow>
            (\<exists>out. generate T src = Inr out))"
proof -
  have pre: "length mi \<le> max_len \<and> length prompt + length pids = length mi + 1"
    if "generate_pre M max_len prompt = Inr (mi, pid, pids)" for mi pid pids
  proof -
    from generate_pre_Inr[OF that] have e: "prompt @ rev pids = mi @ [pid]"
      and l: "length mi \<le> length prompt + (max_len - length prompt)" by simp_all
    from e have "length (prompt @ rev pids) = length (mi @ [pid])" by simp
    with l assms show ?thesis by simp
  qed
  have post: "length mi \<le> max_len \<and> length prompt + length pids = length mi + 1"
    if "generate_post M max_len prompt = Inr (mi, pid, pids)" for mi pid pids
  proof -
    from generate_post_Inr[OF that] have e: "prompt @ pids = mi @ [pid]"
      and l: "length mi \<le> length prompt + (max_len - length prompt)" by simp_all
    from e have "length (prompt @ pids) = length (mi @ [pid])" by simp
    with l assms show ?thesis by simp
  qed
  have gen: "length out \<le> max 1 (tr_max_len T)" if "generate T src = Inr out" for out
    using generate_Inr[OF that] by simp
  have cells: "(\<exists>r. generate_pre M max_len prompt = Inr r) \<and>
            (\<exists>r. generate_post M max_len prompt = Inr r)"
    if "wf_decoder_only num_tokens d_model ml M \<and> 0 < num_tokens \<and> max_len \<le> ml \<and>
          valid_ids num_tokens prompt \<and> prompt \<noteq> []"
    using generate_cells_ok[of num_tokens d_model ml M max_len prompt] that assms by simp
  have g: "\<exists>out. generate T src = Inr out"
    if "wf_transformer num_tokens d_model (tr_max_len T) T \<and> 0 < num_tokens \<and>
          0 < tr_max_len T \<and> valid_ids num_tokens src \<and> length src \<le> tr_max_len T"
    using generate_ok[of num_tokens d_model "tr_max_len T" T src] that by simp
  from pre post gen cells g show ?thesis by blast
qed

theorem generation_terminates_bounded_witness:
  "length [0, 1, 2, 4 :: int] \<le> 6 \<and>
   generate_post ex_decoder_only 6 [0, 1, 2, 4] = Inr ([0, 1, 2, 4, 3], 4, [3, 4]) \<and>
   length [0, 1, 2, 4, 3 :: int] \<le> 6 \<and>
   length [0, 1, 2, 4 :: int] + length [3, 4 :: int] = length [0, 1, 2, 4, 3 :: int] + 1 \<and>
   wf_decoder_only 5 2 6 ex_decoder_only_const \<and> valid_ids 5 [0, 1, 2, 4] \<and>
   (\<exists>r. generate_pre ex_decoder_only_const 6 [0, 1, 2, 4] = Inr r) \<and>
   wf_transformer 6 2 (tr_max_len ex_transformer) ex_transformer \<and> valid_ids 6 [1, 2] \<and>
   (\<exists>out. generate ex_transformer [1, 2] = Inr out \<and> length out \<le> 5)"
proof -
  have l: "length [0, 1, 2, 4 :: int] \<le> 6" by simp
  have run: "generate_post ex_decoder_only 6 [0, 1, 2, 4] = Inr ([0, 1, 2, 4, 3], 4, [3, 4])"
    by (simp add: generate_post_def ex_predict_1 ex_predict_2 two_Suc EOS_do_def)
  have v: "valid_ids 5 [0, 1, 2, 4]" "valid_ids 6 [1, 2]"
    by (simp_all add: valid_ids_def)
  have m: "tr_max_len ex_transformer = 5"
    by (simp add: ex_transformer_def)
  have wt: "wf_transformer 6 2 (tr_max_len ex_transformer) ex_transformer"
    using wf_ex_transformer m by simp
  note t1 = generation_terminates_bounded[OF l, of ex_decoder_only ex_transformer "[1, 2]" 5 2 6]
  note t2 = generation_terminates_bounded[OF l, of ex_decoder_only_const ex_transformer "[1, 2]" 5 2 6]
  note t3 = generation_terminates_bounded[OF l, of ex_decoder_only ex_transformer "[1, 2]" 6 2 5]
  have a: "length [0, 1, 2, 4, 3 :: int] \<le> 6 \<and>
     length [0, 1, 2, 4 :: int] + length [3, 4 :: int] = length [0, 1, 2, 4, 3 :: int] + 1"
    using t1 run by blast
  have b: "\<exists>r. generate_pre ex_decoder_only_const 6 [0, 1, 2, 4] = Inr r"
    using t2 wf_ex_decoder_only_const v(1) by simp
  have "\<exists>out. generate ex_transformer [1, 2] = Inr out"
    using t3 wt v(2) m by simp
  then obtain out where o: "generate ex_transformer [1, 2] = Inr out" by blast
  with t3 m have "length out \<le> 5" by auto
  with o have c: "\<exists>out. generate ex_transformer [1, 2] = Inr out \<and> length out \<le> 5" by blast
  from l run a wf_ex_decoder_only_const v b wt c show ?thesis by blast
qed

text \<open>
  The claim as stated fails: with \<open>max_len = 6\<close>, the prompt of four tokens and a
  model that never predicts \<open><EOS>\<close>, both cells emit three tokens, seven tokens in
  all.
\<close>

theorem generation_length_counterexample:
  "generate_post ex_decoder_only_const 6 [0, 1, 2, 4] = Inr ([0, 1, 2, 4, 3, 3], 3, [3, 3, 3]) \<and>
   generate_pre ex_decoder_only_const 6 [0, 1, 2, 4] = Inr ([0, 1, 2, 4, 3, 3], 3, [3, 3, 3]) \<and>
   length [0, 1, 2, 4 :: int] \<le> 6 \<and> 6 < length ([0, 1, 2, 4] @ [3, 3, 3 :: int])"
  by (simp add: generate_pre_def generate_post_def ex_predict_const valid_ids_def two_Suc EOS_do_def)

end
